theory Spec2Isabelle
  imports Main
begin

section \<open>Text\<close>

text \<open>
  A Python \<open>str\<close> is the list of its code points, so that \<open>len\<close> is \<open>length\<close>.
  String literals of the source are written \<open>ascii ''...''\<close>; the two characters
  outside ASCII that the source uses are named.
\<close>

type_synonym pstr = "nat list"

definition ascii :: "string \<Rightarrow> pstr" where
  "ascii s = map of_char s"

definition middle_dot :: nat where
  "middle_dot = 183"

definition en_dash :: nat where
  "en_dash = 8211"

text \<open>
  Python classifies characters with the Unicode character database, which is not part of
  the repository.  White space (\<open>str.strip\<close>, \<open>\s\<close>) is a short list and is written out
  in full.  For digits (\<open>\d\<close>), word characters (\<open>\w\<close>, \<open>\b\<close>) and \<open>str.lower\<close> the
  blocks Basic Latin, Latin-1 Supplement and General Punctuation (which holds the en
  dash) are written out; the rest of the database is the parameter \<open>U\<close>.
\<close>

record unicode_db =
  uni_decimal :: "nat \<Rightarrow> bool"
  uni_alnum :: "nat \<Rightarrow> bool"
  uni_lower :: "pstr \<Rightarrow> pstr"

definition tabled :: "nat \<Rightarrow> bool" where
  "tabled c \<longleftrightarrow> c < 256 \<or> (8192 \<le> c \<and> c < 8304)"

definition is_space :: "nat \<Rightarrow> bool" where
  "is_space c \<longleftrightarrow>
     (9 \<le> c \<and> c \<le> 13) \<or> (28 \<le> c \<and> c \<le> 32) \<or> c = 133 \<or> c = 160 \<or> c = 5760 \<or>
     (8192 \<le> c \<and> c \<le> 8202) \<or> c = 8232 \<or> c = 8233 \<or> c = 8239 \<or> c = 8287 \<or> c = 12288"

definition is_decimal :: "unicode_db \<Rightarrow> nat \<Rightarrow> bool" where
  "is_decimal U c \<longleftrightarrow> (if tabled c then 48 \<le> c \<and> c \<le> 57 else uni_decimal U c)"

definition is_alnum :: "unicode_db \<Rightarrow> nat \<Rightarrow> bool" where
  "is_alnum U c \<longleftrightarrow>
     (if tabled c
      then (48 \<le> c \<and> c \<le> 57) \<or> (65 \<le> c \<and> c \<le> 90) \<or> (97 \<le> c \<and> c \<le> 122) \<or>
           c = 170 \<or> c = 178 \<or> c = 179 \<or> c = 181 \<or> c = 185 \<or> c = 186 \<or>
           (188 \<le> c \<and> c \<le> 190) \<or> (192 \<le> c \<and> c \<le> 255 \<and> c \<noteq> 215 \<and> c \<noteq> 247)
      else uni_alnum U c)"

definition is_word :: "unicode_db \<Rightarrow> nat \<Rightarrow> bool" where
  "is_word U c \<longleftrightarrow> is_alnum U c \<or> c = 95"

definition lower_char :: "nat \<Rightarrow> nat" where
  "lower_char c = (if (65 \<le> c \<and> c \<le> 90) \<or> (192 \<le> c \<and> c \<le> 222 \<and> c \<noteq> 215) then c + 32 else c)"

definition lower :: "unicode_db \<Rightarrow> pstr \<Rightarrow> pstr" where
  "lower U s = (if list_all tabled s then map lower_char s else uni_lower U s)"

text \<open>
  Under \<open>re.IGNORECASE\<close> an ASCII letter of a pattern also matches the four letters
  outside ASCII whose case folding is an ASCII letter (U+0130, U+0131, U+017F, U+212A).
\<close>

definition fold_case :: "nat \<Rightarrow> nat" where
  "fold_case c =
     (if 65 \<le> c \<and> c \<le> 90 then c + 32
      else if c = 304 \<or> c = 305 then 105
      else if c = 383 then 115
      else if c = 8490 then 107
      else c)"

text \<open>\<open>sub in s\<close> on strings, \<open>s.startswith(p)\<close>, \<open>s.strip()\<close> and \<open>s.split(',')\<close>.\<close>

fun startswith :: "pstr \<Rightarrow> pstr \<Rightarrow> bool" where
  "startswith s [] = True"
| "startswith [] (p # ps) = False"
| "startswith (c # cs) (p # ps) = (c = p \<and> startswith cs ps)"

fun str_in :: "pstr \<Rightarrow> pstr \<Rightarrow> bool" where
  "str_in sub [] = (sub = [])"
| "str_in sub (c # cs) = (startswith (c # cs) sub \<or> str_in sub cs)"

definition strip :: "pstr \<Rightarrow> pstr" where
  "strip s = rev (dropWhile is_space (rev (dropWhile is_space s)))"

fun split_on :: "nat \<Rightarrow> pstr \<Rightarrow> pstr list" where
  "split_on d [] = [[]]"
| "split_on d (c # cs) =
     (if c = d then [] # split_on d cs
      else (case split_on d cs of [] \<Rightarrow> [[c]] | p # ps \<Rightarrow> (c # p) # ps))"

text \<open>Truthiness of an optional string: neither \<open>None\<close> nor empty.\<close>

definition truthy :: "pstr option \<Rightarrow> bool" where
  "truthy t = (case t of None \<Rightarrow> False | Some s \<Rightarrow> s \<noteq> [])"

subsection \<open>The text normalizer\<close>

text \<open>\<open>re.sub(r'\s+', ' ', s)\<close>: every maximal run of white space becomes one space.\<close>

function collapse_ws :: "pstr \<Rightarrow> pstr" where
  "collapse_ws [] = []"
| "collapse_ws (c # cs) =
     (if is_space c then 32 # collapse_ws (dropWhile is_space cs) else c # collapse_ws cs)"
  by pat_completeness auto
termination
  by (relation "measure length") (auto simp: le_imp_less_Suc length_dropWhile_le)

definition normalize_text :: "pstr \<Rightarrow> pstr option" where
  "normalize_text text =
     (if text = [] then None
      else (let cleaned = collapse_ws (strip text) in if cleaned = [] then None else Some cleaned))"

section \<open>Regular expressions\<close>

text \<open>
  The patterns of the source are values of \<open>regex\<close>.  Every repetition in them repeats a
  single character class, so \<open>Rep\<close> repeats a class: greedy or lazy, with a least and an
  optional greatest count.  A match state is the text before the position (reversed),
  the text after it, and the groups captured so far.  \<open>rx\<close> lists the states in which a
  pattern can end, in the order in which Python's backtracking matcher tries them: its
  first element is the match Python reports.
\<close>

type_synonym cclass = "unicode_db \<Rightarrow> nat \<Rightarrow> bool"

definition Lit :: "nat \<Rightarrow> cclass" where
  "Lit p U c \<longleftrightarrow> c = p"

definition LitI :: "nat \<Rightarrow> cclass" where
  "LitI p U c \<longleftrightarrow> fold_case c = fold_case p"

definition AlphaI :: cclass where
  "AlphaI U c \<longleftrightarrow> 97 \<le> fold_case c \<and> fold_case c \<le> 122"

definition Digit :: cclass where
  "Digit U c \<longleftrightarrow> is_decimal U c"

definition Space :: cclass where
  "Space U c \<longleftrightarrow> is_space c"

definition Word :: cclass where
  "Word U c \<longleftrightarrow> is_word U c"

definition Dot :: cclass where
  "Dot U c \<longleftrightarrow> c \<noteq> 10"

definition Union :: "cclass \<Rightarrow> cclass \<Rightarrow> cclass" where
  "Union k1 k2 U c \<longleftrightarrow> k1 U c \<or> k2 U c"

datatype regex =
    Chr cclass
  | Rep cclass bool nat "nat option"
  | Seq regex regex
  | Alt regex regex
  | Grp nat regex
  | Bol
  | Eol
  | Wordb
  | Eps

type_synonym mstate = "pstr \<times> pstr \<times> (nat \<times> pstr) list"

fun rx :: "unicode_db \<Rightarrow> regex \<Rightarrow> mstate \<Rightarrow> mstate list" where
  "rx U (Chr k) (b, a, g) =
     (case a of [] \<Rightarrow> [] | x # xs \<Rightarrow> if k U x then [(x # b, xs, g)] else [])"
| "rx U (Rep k greedy lo hi) (b, a, g) =
     (let run = length (takeWhile (k U) a);
          top = (case hi of None \<Rightarrow> run | Some h \<Rightarrow> min h run);
          counts = (if greedy then rev [lo..<Suc top] else [lo..<Suc top])
      in map (\<lambda>n. (rev (take n a) @ b, drop n a, g)) counts)"
| "rx U (Seq r1 r2) s = concat (map (rx U r2) (rx U r1 s))"
| "rx U (Alt r1 r2) s = rx U r1 s @ rx U r2 s"
| "rx U (Grp n r) (b, a, g) =
     map (\<lambda>(b', a', g'). (b', a', (n, take (length a - length a') a) # g')) (rx U r (b, a, g))"
| "rx U Bol (b, a, g) = (if b = [] then [(b, a, g)] else [])"
| "rx U Eol (b, a, g) = (if a = [] \<or> a = [10] then [(b, a, g)] else [])"
| "rx U Wordb (b, a, g) =
     (let wl = (case b of [] \<Rightarrow> False | x # _ \<Rightarrow> is_word U x);
          wr = (case a of [] \<Rightarrow> False | x # _ \<Rightarrow> is_word U x)
      in if wl \<noteq> wr then [(b, a, g)] else [])"
| "rx U Eps s = [s]"

text \<open>Sequences, alternatives and literal words of a pattern.\<close>

fun seqs :: "regex list \<Rightarrow> regex" where
  "seqs [] = Eps"
| "seqs [r] = r"
| "seqs (r # rs) = Seq r (seqs rs)"

fun alts :: "regex list \<Rightarrow> regex" where
  "alts [] = Eps"
| "alts [r] = r"
| "alts (r # rs) = Alt r (alts rs)"

definition lits :: "string \<Rightarrow> regex" where
  "lits s = seqs (map (\<lambda>c. Chr (Lit (of_char c))) s)"

definition litsI :: "string \<Rightarrow> regex" where
  "litsI s = seqs (map (\<lambda>c. Chr (LitI (of_char c))) s)"

text \<open>
  \<open>re.search\<close>: the first position, from the left, at which the pattern matches, and
  the first match there.
\<close>

fun search_from :: "unicode_db \<Rightarrow> regex \<Rightarrow> pstr \<Rightarrow> pstr \<Rightarrow> mstate option" where
  "search_from U r b [] = (case rx U r (b, [], []) of [] \<Rightarrow> None | s # _ \<Rightarrow> Some s)"
| "search_from U r b (x # xs) =
     (case rx U r (b, x # xs, []) of [] \<Rightarrow> search_from U r (x # b) xs | s # _ \<Rightarrow> Some s)"

definition re_search :: "unicode_db \<Rightarrow> regex \<Rightarrow> pstr \<Rightarrow> mstate option" where
  "re_search U r text = search_from U r [] text"

definition group :: "mstate \<Rightarrow> nat \<Rightarrow> pstr option" where
  "group m n = map_of (snd (snd m)) n"

text \<open>
  \<open>re.findall\<close> for a pattern with one group: the text of group 1 for each match (the
  empty string when the group took no part), the matches found from left to right
  without overlap.  \<open>skip\<close> counts the characters of the last match that are still to
  be passed.
\<close>

definition group1 :: "mstate \<Rightarrow> pstr" where
  "group1 m = (case group m 1 of None \<Rightarrow> [] | Some s \<Rightarrow> s)"

fun findall_from :: "unicode_db \<Rightarrow> regex \<Rightarrow> pstr \<Rightarrow> pstr \<Rightarrow> nat \<Rightarrow> pstr list" where
  "findall_from U r b [] skip =
     (if 0 < skip then []
      else (case rx U r (b, [], []) of [] \<Rightarrow> [] | m # _ \<Rightarrow> [group1 m]))"
| "findall_from U r b (x # xs) skip =
     (if 0 < skip then findall_from U r (x # b) xs (skip - 1)
      else (case rx U r (b, x # xs, []) of
              [] \<Rightarrow> findall_from U r (x # b) xs 0
            | m # _ \<Rightarrow> group1 m # findall_from U r (x # b) xs (length (x # xs) - length (fst (snd m)) - 1)))"

definition re_findall :: "unicode_db \<Rightarrow> regex \<Rightarrow> pstr \<Rightarrow> pstr list" where
  "re_findall U r text = findall_from U r [] text 0"

subsection \<open>The date patterns\<close>

text \<open>
  \<open>date_pattern\<close> is
  \<^verbatim>\<open>([A-Za-z]+\s+\d{4}|\d{4})\s*[--]\s*([A-Za-z]+\s+\d{4}|\d{4}|Present)\<close>
  (the bracket holds an en dash and a hyphen) under \<open>re.IGNORECASE\<close>, and
  \<open>duration_pattern\<close> is \<^verbatim>\<open>.\s*(.+?)(?:\s*.|$)\<close> with a middle dot for the first and the
  last dot.
\<close>

definition month_year :: regex where
  "month_year = seqs [Rep AlphaI True 1 None, Rep Space True 1 None, Rep Digit True 4 (Some 4)]"

definition year4 :: regex where
  "year4 = Rep Digit True 4 (Some 4)"

definition date_pattern :: regex where
  "date_pattern =
     seqs [Grp 1 (Alt month_year year4),
           Rep Space True 0 None,
           Chr (Union (Lit en_dash) (Lit 45)),
           Rep Space True 0 None,
           Grp 2 (alts [month_year, year4, litsI ''Present''])]"

definition duration_pattern :: regex where
  "duration_pattern =
     seqs [Chr (Lit middle_dot),
           Rep Space True 0 None,
           Grp 1 (Rep Dot False 1 None),
           Alt (Seq (Rep Space True 0 None) (Chr (Lit middle_dot))) Eol]"

definition extract_date_range :: "unicode_db \<Rightarrow> pstr \<Rightarrow> pstr option \<times> pstr option \<times> pstr option" where
  "extract_date_range U text =
     (let (start_date, end_date) =
            (case re_search U date_pattern text of
               None \<Rightarrow> (None, None)
             | Some m \<Rightarrow> (map_option strip (group m 1), map_option strip (group m 2)));
          duration =
            (case re_search U duration_pattern text of
               None \<Rightarrow> None
             | Some m \<Rightarrow> map_option strip (group m 1))
      in (start_date, end_date, duration))"

text \<open>The year pattern of the education parser, \<^verbatim>\<open>\b(19|20)\d{2}\b\<close>.\<close>

definition year_pattern :: regex where
  "year_pattern =
     seqs [Wordb, Grp 1 (Alt (lits ''19'') (lits ''20'')), Rep Digit True 2 (Some 2), Wordb]"

section \<open>The parsed document\<close>

text \<open>
  The extractor reads a BeautifulSoup tree through \<open>find_all\<close>, \<open>find_parent\<close>,
  \<open>get_text\<close> and \<open>children\<close>.  A node is a string or a tag with its name, the names of
  its attributes and its contents; no attribute value is ever read.  Strings that
  \<open>get_text\<close> does not count (comments, declarations, the text of \<open>script\<close> and \<open>style\<close>
  elements) are seen by none of the four operations and are left out.  A tag object
  knows its parents, so an \<open>element\<close> is a tag together with its ancestors, the nearest
  first.  The BeautifulSoup object itself is the element \<open>soup contents\<close>; its name
  \<open>[document]\<close> is no tag name.
\<close>

datatype node = Text pstr | Tag string "string list" "node list"

type_synonym element = "node list \<times> node"

definition soup :: "node list \<Rightarrow> element" where
  "soup contents = ([], Tag ''[document]'' [] contents)"

fun get_text :: "node \<Rightarrow> pstr" where
  "get_text (Text s) = s"
| "get_text (Tag n attrs cs) = concat (map get_text cs)"

fun named :: "string list \<Rightarrow> node \<Rightarrow> bool" where
  "named names (Text s) = False"
| "named names (Tag n attrs cs) = (n \<in> set names)"

text \<open>The tag has an attribute of each of the given names.\<close>

fun has_attrs :: "string list \<Rightarrow> node \<Rightarrow> bool" where
  "has_attrs keys (Text s) = False"
| "has_attrs keys (Tag n attrs cs) = list_all (\<lambda>k. k \<in> set attrs) keys"

fun children :: "element \<Rightarrow> element list" where
  "children (anc, Text s) = []"
| "children (anc, Tag n attrs cs) = map (\<lambda>c. (Tag n attrs cs # anc, c)) cs"

text \<open>A tag and the tags below it, in document order.\<close>

fun tags_under :: "node list \<Rightarrow> node \<Rightarrow> element list" where
  "tags_under anc (Text s) = []"
| "tags_under anc (Tag n attrs cs) =
     (anc, Tag n attrs cs) # concat (map (tags_under (Tag n attrs cs # anc)) cs)"

definition find_all :: "string list \<Rightarrow> element \<Rightarrow> element list" where
  "find_all names e =
     filter (\<lambda>d. named names (snd d)) (concat (map (\<lambda>c. tags_under (fst c) (snd c)) (children e)))"

text \<open>
  \<open>find_parent(names, **kwargs)\<close> on the ancestors of an element.  The method has the
  parameters \<open>name\<close> and \<open>attrs\<close>; every other keyword argument is a filter on the
  attribute of that name, and the value \<open>True\<close> asks for the attribute to be present.
  \<open>keys\<close> lists the keyword arguments that are given as \<open>True\<close>.  The result is the
  nearest ancestor with one of the names and with all these attributes.
\<close>

fun find_parent :: "string list \<Rightarrow> string list \<Rightarrow> node list \<Rightarrow> element option" where
  "find_parent names keys [] = None"
| "find_parent names keys (p # ps) =
     (if named names p \<and> has_attrs keys p then Some (ps, p) else find_parent names keys ps)"

definition elem_text :: "element \<Rightarrow> pstr option" where
  "elem_text e = normalize_text (get_text (snd e))"

text \<open>The normalized texts of a list of elements, those that are empty left out.\<close>

fun texts_of :: "element list \<Rightarrow> pstr list" where
  "texts_of [] = []"
| "texts_of (e # es) = (case elem_text e of None \<Rightarrow> texts_of es | Some text \<Rightarrow> text # texts_of es)"

section \<open>Section locator and block segmenter\<close>

datatype section_key =
  About | Experience | Education | Skills | Certifications | Projects | Honors | Volunteering

fun SECTION_HEADERS :: "section_key \<Rightarrow> pstr list" where
  "SECTION_HEADERS About = [ascii ''about'', ascii ''summary'']"
| "SECTION_HEADERS Experience = [ascii ''experience'']"
| "SECTION_HEADERS Education = [ascii ''education'']"
| "SECTION_HEADERS Skills = [ascii ''skills'', ascii ''skills & endorsements'']"
| "SECTION_HEADERS Certifications = [ascii ''licenses & certifications'', ascii ''certifications'']"
| "SECTION_HEADERS Projects = [ascii ''projects'']"
| "SECTION_HEADERS Honors = [ascii ''honors & awards'', ascii ''honors'', ascii ''awards'']"
| "SECTION_HEADERS Volunteering = [ascii ''volunteering'', ascii ''volunteer experience'']"

text \<open>
  \<open>find_section_by_header\<close>: the inner loop over the keywords for one element, and the
  outer loop over the elements.  The source calls
  \<^verbatim>\<open>element.find_parent(['section', 'div'], recursive=True)\<close>; \<open>recursive\<close> is a
  parameter of \<open>find_all\<close> but not of \<open>find_parent\<close>, so here it is a filter on an
  attribute named \<open>recursive\<close>.  A match for which \<open>find_parent\<close> returns nothing does
  not return; the loops go on.
\<close>

definition keyword_matches :: "unicode_db \<Rightarrow> pstr \<Rightarrow> pstr \<Rightarrow> bool" where
  "keyword_matches U text_lower keyword \<longleftrightarrow>
     text_lower = lower U keyword \<or> startswith text_lower (lower U keyword)"

fun match_keywords :: "unicode_db \<Rightarrow> pstr \<Rightarrow> element \<Rightarrow> pstr list \<Rightarrow> element option" where
  "match_keywords U text_lower element [] = None"
| "match_keywords U text_lower element (keyword # keywords) =
     (if keyword_matches U text_lower keyword
      then (case find_parent [''section'', ''div''] [''recursive''] (fst element) of
              Some section \<Rightarrow> Some section
            | None \<Rightarrow> match_keywords U text_lower element keywords)
      else match_keywords U text_lower element keywords)"

fun scan_headers :: "unicode_db \<Rightarrow> element list \<Rightarrow> pstr list \<Rightarrow> element option" where
  "scan_headers U [] header_keywords = None"
| "scan_headers U (element # elements) header_keywords =
     (case elem_text element of
        None \<Rightarrow> scan_headers U elements header_keywords
      | Some text \<Rightarrow>
          (case match_keywords U (lower U text) element header_keywords of
             Some section \<Rightarrow> Some section
           | None \<Rightarrow> scan_headers U elements header_keywords))"

definition find_section_by_header :: "unicode_db \<Rightarrow> element \<Rightarrow> pstr list \<Rightarrow> element option" where
  "find_section_by_header U doc header_keywords =
     scan_headers U (find_all [''h2'', ''h3'', ''h4'', ''span'', ''div''] doc) header_keywords"

text \<open>\<open>get_list_items_from_section\<close>, with its loop over the containers.\<close>

definition direct_div_children :: "element \<Rightarrow> element list" where
  "direct_div_children container = filter (\<lambda>child. named [''div''] (snd child)) (children container)"

fun scan_containers :: "element list \<Rightarrow> element list" where
  "scan_containers [] = []"
| "scan_containers (container # containers) =
     (let direct_children = direct_div_children container
      in if 2 \<le> length direct_children then direct_children else scan_containers containers)"

definition get_list_items_from_section :: "element \<Rightarrow> element list" where
  "get_list_items_from_section section =
     (let list_items = find_all [''li''] section
      in if list_items \<noteq> [] then list_items
         else scan_containers (find_all [''ul'', ''ol'', ''div''] section))"

section \<open>The profile data\<close>

text \<open>
  The dictionaries of the source are records, one field for each key; a key that
  occurs in two kinds of dictionary carries the kind in front.
\<close>

record basic_profile_rec =
  full_name :: "pstr option"
  headline :: "pstr option"
  bp_location :: "pstr option"
  current_company :: "pstr option"
  profile_summary :: "pstr option"

record experience_rec =
  job_title :: "pstr option"
  company_name :: "pstr option"
  employment_type :: "pstr option"
  start_date :: "pstr option"
  end_date :: "pstr option"
  duration :: "pstr option"
  exp_location :: "pstr option"
  exp_description :: "pstr list"

record education_rec =
  institution_name :: "pstr option"
  degree :: "pstr option"
  field_of_study :: "pstr option"
  start_year :: "pstr option"
  end_year :: "pstr option"
  grade :: "pstr option"
  activities :: "pstr option"

record certification_rec =
  cert_name :: "pstr option"
  issuing_organization :: "pstr option"
  issue_date :: "pstr option"
  expiration_date :: "pstr option"

record project_rec =
  project_name :: "pstr option"
  proj_role :: "pstr option"
  proj_description :: "pstr option"
  associated_dates :: "pstr option"

record honor_rec =
  honor_title :: "pstr option"
  issuer :: "pstr option"
  honor_date :: "pstr option"
  honor_description :: "pstr option"

record volunteer_rec =
  organization :: "pstr option"
  vol_role :: "pstr option"
  cause :: "pstr option"
  date_range :: "pstr option"
  vol_description :: "pstr option"

record profile_data =
  basic_profile :: basic_profile_rec
  experience :: "experience_rec list"
  education :: "education_rec list"
  skills :: "pstr list"
  certifications :: "certification_rec list"
  projects :: "project_rec list"
  honors_awards :: "honor_rec list"
  volunteering :: "volunteer_rec list"

definition initialize_structure :: profile_data where
  "initialize_structure =
     \<lparr>basic_profile =
        \<lparr>full_name = None, headline = None, bp_location = None, current_company = None,
         profile_summary = None\<rparr>,
      experience = [], education = [], skills = [], certifications = [], projects = [],
      honors_awards = [], volunteering = []\<rparr>"

section \<open>Field assignment\<close>

text \<open>
  The loop \<^verbatim>\<open>for text in xs[:]: if P(text): ...; xs.remove(text); break\<close>: the first
  element that satisfies \<open>P\<close>, and the list with its first occurrence removed.
\<close>

definition take_first :: "('a \<Rightarrow> bool) \<Rightarrow> 'a list \<Rightarrow> 'a option \<times> 'a list" where
  "take_first P xs = (case find P xs of None \<Rightarrow> (None, xs) | Some x \<Rightarrow> (Some x, remove1 x xs))"

definition any_in :: "pstr list \<Rightarrow> pstr \<Rightarrow> bool" where
  "any_in words text = list_ex (\<lambda>w. str_in w text) words"

definition item_texts :: "element \<Rightarrow> pstr list" where
  "item_texts item = texts_of (find_all [''span'', ''div'', ''p'', ''h3'', ''h4''] item)"

text \<open>
  The month words of the date tests, \<^verbatim>\<open>\d{4}|Jan|...|Dec\<close> and the same with
  \<^verbatim>\<open>|Present\<close>, both under \<open>re.IGNORECASE\<close>.
\<close>

definition month_words :: "regex list" where
  "month_words =
     map litsI [''Jan'', ''Feb'', ''Mar'', ''Apr'', ''May'', ''Jun'', ''Jul'', ''Aug'', ''Sep'',
                ''Oct'', ''Nov'', ''Dec'']"

definition date_words :: regex where
  "date_words = alts (year4 # month_words)"

definition date_words_present :: regex where
  "date_words_present = alts (year4 # month_words @ [litsI ''Present''])"

subsection \<open>Experience\<close>

definition empty_experience :: experience_rec where
  "empty_experience =
     \<lparr>job_title = None, company_name = None, employment_type = None, start_date = None,
      end_date = None, duration = None, exp_location = None, exp_description = []\<rparr>"

definition title_ok :: "unicode_db \<Rightarrow> pstr \<Rightarrow> bool" where
  "title_ok U text \<longleftrightarrow>
     3 < length text \<and> \<not> any_in [ascii ''experience'', [middle_dot]] (lower U text)"

fun title_scan :: "unicode_db \<Rightarrow> pstr list \<Rightarrow> (pstr \<times> pstr list) option" where
  "title_scan U [] = None"
| "title_scan U (text # rest) = (if title_ok U text then Some (text, rest) else title_scan U rest)"

definition is_employment_type :: "pstr \<Rightarrow> bool" where
  "is_employment_type text =
     any_in (map ascii [''Full-time'', ''Part-time'', ''Contract'', ''Freelance'', ''Internship'',
                        ''Self-employed'']) text"

definition is_experience_date :: "unicode_db \<Rightarrow> pstr \<Rightarrow> bool" where
  "is_experience_date U text \<longleftrightarrow>
     re_search U date_words_present text \<noteq> None \<and> truthy (fst (extract_date_range U text))"

definition is_experience_location :: "unicode_db \<Rightarrow> pstr \<Rightarrow> bool" where
  "is_experience_location U text \<longleftrightarrow>
     (str_in (ascii '','') text \<or> any_in [ascii ''remote'', ascii ''hybrid''] (lower U text)) \<and>
     length text < 100"

text \<open>
  The rule chain of \<open>parse_experience_item\<close> on the texts of the item.  Each step takes
  the record and the remaining texts and returns both; \<open>description_list\<close> is
  \<open>item.find_all('li')\<close>.
\<close>

fun title_step :: "unicode_db \<Rightarrow> experience_rec \<times> pstr list \<Rightarrow> experience_rec \<times> pstr list" where
  "title_step U (r, text_elements) =
     (case title_scan U text_elements of
        None \<Rightarrow> (r, text_elements)
      | Some (text, rest) \<Rightarrow> (r\<lparr>job_title := Some text\<rparr>, rest))"

fun company_step :: "experience_rec \<times> pstr list \<Rightarrow> experience_rec \<times> pstr list" where
  "company_step (r, []) = (r, [])"
| "company_step (r, text # rest) = (r\<lparr>company_name := Some text\<rparr>, rest)"

fun employment_step :: "experience_rec \<times> pstr list \<Rightarrow> experience_rec \<times> pstr list" where
  "employment_step (r, text_elements) =
     (case take_first is_employment_type text_elements of
        (None, rest) \<Rightarrow> (r, rest)
      | (Some text, rest) \<Rightarrow> (r\<lparr>employment_type := Some text\<rparr>, rest))"

fun date_step :: "unicode_db \<Rightarrow> experience_rec \<times> pstr list \<Rightarrow> experience_rec \<times> pstr list" where
  "date_step U (r, text_elements) =
     (case take_first (is_experience_date U) text_elements of
        (None, rest) \<Rightarrow> (r, rest)
      | (Some text, rest) \<Rightarrow>
          (case extract_date_range U text of
             (date1, date2, dur) \<Rightarrow>
               (r\<lparr>start_date := date1, end_date := date2, duration := dur\<rparr>, rest)))"

fun location_step :: "unicode_db \<Rightarrow> experience_rec \<times> pstr list \<Rightarrow> experience_rec \<times> pstr list" where
  "location_step U (r, text_elements) =
     (case take_first (is_experience_location U) text_elements of
        (None, rest) \<Rightarrow> (r, rest)
      | (Some text, rest) \<Rightarrow> (r\<lparr>exp_location := Some text\<rparr>, rest))"

fun description_step :: "element list \<Rightarrow> experience_rec \<times> pstr list \<Rightarrow> experience_rec" where
  "description_step description_list (r, text_elements) =
     (if description_list \<noteq> []
      then r\<lparr>exp_description := texts_of description_list\<rparr>
      else r\<lparr>exp_description := filter (\<lambda>text. 50 < length text) text_elements\<rparr>)"

definition experience_chain :: "unicode_db \<Rightarrow> pstr list \<Rightarrow> element list \<Rightarrow> experience_rec" where
  "experience_chain U text_elements description_list =
     (if text_elements = [] then empty_experience
      else description_step description_list
             (location_step U
               (date_step U
                 (employment_step
                   (company_step
                     (title_step U (empty_experience, text_elements)))))))"

definition parse_experience_item :: "unicode_db \<Rightarrow> element \<Rightarrow> experience_rec" where
  "parse_experience_item U item = experience_chain U (item_texts item) (find_all [''li''] item)"

text \<open>
  \<open>extract_experience\<close>: the loop that appends the accepted records, then the loop that
  looks for the current company.  The first loop is the same in the six extractors of
  records, with its parser and its identity field.
\<close>

fun append_accepted :: "(element \<Rightarrow> 'r) \<Rightarrow> ('r \<Rightarrow> pstr option) \<Rightarrow> element list \<Rightarrow> 'r list \<Rightarrow> 'r list" where
  "append_accepted parse ident [] acc = acc"
| "append_accepted parse ident (item # list_items) acc =
     (let r = parse item
      in if truthy (ident r)
         then append_accepted parse ident list_items (acc @ [r])
         else append_accepted parse ident list_items acc)"

definition is_present :: "unicode_db \<Rightarrow> experience_rec \<Rightarrow> bool" where
  "is_present U exp \<longleftrightarrow>
     truthy (end_date exp) \<and> map_option (lower U) (end_date exp) = Some (ascii ''present'')"

fun scan_current :: "unicode_db \<Rightarrow> experience_rec list \<Rightarrow> basic_profile_rec \<Rightarrow> basic_profile_rec" where
  "scan_current U [] bp = bp"
| "scan_current U (exp # exps) bp =
     (if is_present U exp then bp\<lparr>current_company := company_name exp\<rparr>
      else scan_current U exps bp)"

definition extract_experience :: "unicode_db \<Rightarrow> element \<Rightarrow> profile_data \<Rightarrow> profile_data" where
  "extract_experience U doc pd =
     (case find_section_by_header U doc (SECTION_HEADERS Experience) of
        None \<Rightarrow> pd
      | Some experience_section \<Rightarrow>
          (let list_items = get_list_items_from_section experience_section;
               pd = pd\<lparr>experience :=
                      append_accepted (parse_experience_item U) job_title list_items (experience pd)\<rparr>
           in pd\<lparr>basic_profile := scan_current U (experience pd) (basic_profile pd)\<rparr>))"

subsection \<open>Education\<close>

definition empty_education :: education_rec where
  "empty_education =
     \<lparr>institution_name = None, degree = None, field_of_study = None, start_year = None,
      end_year = None, grade = None, activities = None\<rparr>"

definition education_texts :: "unicode_db \<Rightarrow> element \<Rightarrow> pstr list" where
  "education_texts U item = filter (\<lambda>text. lower U text \<noteq> ascii ''education'') (item_texts item)"

definition is_degree :: "pstr \<Rightarrow> bool" where
  "is_degree text =
     any_in (map ascii [''Bachelor'', ''Master'', ''PhD'', ''Associate'', ''Doctorate'', ''Diploma'',
                        ''Certificate'']) text"

text \<open>
  The loop over the year texts: the first text in which \<open>re.findall\<close> finds one or two
  matches, with what it found.
\<close>

fun year_scan :: "unicode_db \<Rightarrow> pstr list \<Rightarrow> (pstr \<times> pstr list) option" where
  "year_scan U [] = None"
| "year_scan U (text # rest) =
     (let year_match = re_findall U year_pattern text
      in if length year_match = 2 \<or> length year_match = 1 then Some (text, year_match)
         else year_scan U rest)"

definition is_grade :: "unicode_db \<Rightarrow> pstr \<Rightarrow> bool" where
  "is_grade U text = any_in (map ascii [''gpa'', ''grade'', ''cgpa'', ''score'']) (lower U text)"

definition is_activities :: "unicode_db \<Rightarrow> pstr \<Rightarrow> bool" where
  "is_activities U text \<longleftrightarrow> str_in (ascii ''activities'') (lower U text) \<or> 30 < length text"

definition education_chain :: "unicode_db \<Rightarrow> pstr list \<Rightarrow> education_rec" where
  "education_chain U text_elements =
     (case text_elements of
        [] \<Rightarrow> empty_education
      | first # text_elements \<Rightarrow>
        (let education = empty_education\<lparr>institution_name := Some first\<rparr>;
             (education, text_elements) =
               (case take_first is_degree text_elements of
                  (None, rest) \<Rightarrow> (education, rest)
                | (Some text, rest) \<Rightarrow>
                    (case split_on 44 text of
                       [] \<Rightarrow> (education, rest)
                     | [part0] \<Rightarrow> (education\<lparr>degree := Some (strip part0)\<rparr>, rest)
                     | part0 # part1 # _ \<Rightarrow>
                         (education\<lparr>degree := Some (strip part0),
                                    field_of_study := Some (strip part1)\<rparr>, rest)));
             (education, text_elements) =
               (case year_scan U text_elements of
                  None \<Rightarrow> (education, text_elements)
                | Some (text, year_match) \<Rightarrow>
                    (if length year_match = 2
                     then education\<lparr>start_year := Some (year_match ! 0),
                                    end_year := Some (year_match ! 1)\<rparr>
                     else education\<lparr>end_year := Some (year_match ! 0)\<rparr>,
                     remove1 text text_elements));
             (education, text_elements) =
               (case take_first (is_grade U) text_elements of
                  (None, rest) \<Rightarrow> (education, rest)
                | (Some text, rest) \<Rightarrow> (education\<lparr>grade := Some text\<rparr>, rest))
         in (case find (is_activities U) text_elements of
               None \<Rightarrow> education
             | Some text \<Rightarrow> education\<lparr>activities := Some text\<rparr>)))"

definition parse_education_item :: "unicode_db \<Rightarrow> element \<Rightarrow> education_rec" where
  "parse_education_item U item = education_chain U (education_texts U item)"

definition extract_education :: "unicode_db \<Rightarrow> element \<Rightarrow> profile_data \<Rightarrow> profile_data" where
  "extract_education U doc pd =
     (case find_section_by_header U doc (SECTION_HEADERS Education) of
        None \<Rightarrow> pd
      | Some education_section \<Rightarrow>
          (let list_items = get_list_items_from_section education_section
           in pd\<lparr>education :=
                   append_accepted (parse_education_item U) institution_name list_items (education pd)\<rparr>))"

subsection \<open>Skills\<close>

text \<open>The loop of \<open>extract_skills\<close> over the normalized texts of the elements.\<close>

fun skills_loop :: "unicode_db \<Rightarrow> pstr list \<Rightarrow> pstr list \<Rightarrow> pstr list" where
  "skills_loop U [] accepted = accepted"
| "skills_loop U (text # texts) accepted =
     (if 2 < length text \<and> length text < 50 \<and>
         lower U text \<notin> set [ascii ''skills'', ascii ''endorsements'']
      then (if text \<notin> set accepted \<and> \<not> list_ex (\<lambda>s. str_in text s) accepted
            then skills_loop U texts (accepted @ [text])
            else skills_loop U texts accepted)
      else skills_loop U texts accepted)"

definition extract_skills :: "unicode_db \<Rightarrow> element \<Rightarrow> profile_data \<Rightarrow> profile_data" where
  "extract_skills U doc pd =
     (case find_section_by_header U doc (SECTION_HEADERS Skills) of
        None \<Rightarrow> pd
      | Some skills_section \<Rightarrow>
          pd\<lparr>skills :=
               skills_loop U (texts_of (find_all [''span'', ''div'', ''li'', ''p''] skills_section)) []\<rparr>)"

subsection \<open>Certifications\<close>

definition empty_certification :: certification_rec where
  "empty_certification =
     \<lparr>cert_name = None, issuing_organization = None, issue_date = None, expiration_date = None\<rparr>"

text \<open>
  \<^verbatim>\<open>issued|expires\<close>, \<^verbatim>\<open>issued\s+([A-Za-z]+\s+\d{4})\<close> and
  \<^verbatim>\<open>expires\s+([A-Za-z]+\s+\d{4})\<close>, under \<open>re.IGNORECASE\<close>.
\<close>

definition issued_or_expires :: regex where
  "issued_or_expires = Alt (litsI ''issued'') (litsI ''expires'')"

definition issued_pattern :: regex where
  "issued_pattern = seqs [litsI ''issued'', Rep Space True 1 None, Grp 1 month_year]"

definition expires_pattern :: regex where
  "expires_pattern = seqs [litsI ''expires'', Rep Space True 1 None, Grp 1 month_year]"

text \<open>The loop over the remaining texts; it has no \<open>break\<close>, so a later text wins.\<close>

fun cert_dates :: "unicode_db \<Rightarrow> pstr list \<Rightarrow> certification_rec \<Rightarrow> certification_rec" where
  "cert_dates U [] cert = cert"
| "cert_dates U (text # texts) cert =
     (if re_search U issued_or_expires text \<noteq> None
      then (let cert = (case re_search U issued_pattern text of
                          None \<Rightarrow> cert
                        | Some issued_match \<Rightarrow> cert\<lparr>issue_date := group issued_match 1\<rparr>);
                cert = (case re_search U expires_pattern text of
                          None \<Rightarrow> cert
                        | Some expires_match \<Rightarrow> cert\<lparr>expiration_date := group expires_match 1\<rparr>)
            in cert_dates U texts cert)
      else cert_dates U texts cert)"

definition certification_chain :: "unicode_db \<Rightarrow> pstr list \<Rightarrow> certification_rec" where
  "certification_chain U text_elements =
     (case text_elements of
        [] \<Rightarrow> empty_certification
      | first # text_elements \<Rightarrow>
        (let cert = empty_certification\<lparr>cert_name := Some first\<rparr>;
             (cert, text_elements) =
               (case text_elements of
                  [] \<Rightarrow> (cert, text_elements)
                | text # rest \<Rightarrow> (cert\<lparr>issuing_organization := Some text\<rparr>, rest))
         in cert_dates U text_elements cert))"

definition parse_certification_item :: "unicode_db \<Rightarrow> element \<Rightarrow> certification_rec" where
  "parse_certification_item U item = certification_chain U (item_texts item)"

definition extract_certifications :: "unicode_db \<Rightarrow> element \<Rightarrow> profile_data \<Rightarrow> profile_data" where
  "extract_certifications U doc pd =
     (case find_section_by_header U doc (SECTION_HEADERS Certifications) of
        None \<Rightarrow> pd
      | Some cert_section \<Rightarrow>
          (let list_items = get_list_items_from_section cert_section
           in pd\<lparr>certifications :=
                   append_accepted (parse_certification_item U) cert_name list_items
                     (certifications pd)\<rparr>))"

subsection \<open>Projects\<close>

definition empty_project :: project_rec where
  "empty_project =
     \<lparr>project_name = None, proj_role = None, proj_description = None, associated_dates = None\<rparr>"

definition project_chain :: "unicode_db \<Rightarrow> pstr list \<Rightarrow> project_rec" where
  "project_chain U text_elements =
     (case text_elements of
        [] \<Rightarrow> empty_project
      | first # text_elements \<Rightarrow>
        (let project = empty_project\<lparr>project_name := Some first\<rparr>;
             (project, text_elements) =
               (case take_first (\<lambda>text. re_search U date_words text \<noteq> None) text_elements of
                  (None, rest) \<Rightarrow> (project, rest)
                | (Some text, rest) \<Rightarrow> (project\<lparr>associated_dates := Some text\<rparr>, rest))
         in (case find (\<lambda>text. 30 < length text) text_elements of
               None \<Rightarrow> project
             | Some text \<Rightarrow> project\<lparr>proj_description := Some text\<rparr>)))"

definition parse_project_item :: "unicode_db \<Rightarrow> element \<Rightarrow> project_rec" where
  "parse_project_item U item = project_chain U (item_texts item)"

definition extract_projects :: "unicode_db \<Rightarrow> element \<Rightarrow> profile_data \<Rightarrow> profile_data" where
  "extract_projects U doc pd =
     (case find_section_by_header U doc (SECTION_HEADERS Projects) of
        None \<Rightarrow> pd
      | Some projects_section \<Rightarrow>
          (let list_items = get_list_items_from_section projects_section
           in pd\<lparr>projects :=
                   append_accepted (parse_project_item U) project_name list_items (projects pd)\<rparr>))"

subsection \<open>Honors and awards\<close>

definition empty_honor :: honor_rec where
  "empty_honor = \<lparr>honor_title = None, issuer = None, honor_date = None, honor_description = None\<rparr>"

definition honor_chain :: "unicode_db \<Rightarrow> pstr list \<Rightarrow> honor_rec" where
  "honor_chain U text_elements =
     (case text_elements of
        [] \<Rightarrow> empty_honor
      | first # text_elements \<Rightarrow>
        (let honor = empty_honor\<lparr>honor_title := Some first\<rparr>;
             (honor, text_elements) =
               (case text_elements of
                  [] \<Rightarrow> (honor, text_elements)
                | text # rest \<Rightarrow> (honor\<lparr>issuer := Some text\<rparr>, rest));
             (honor, text_elements) =
               (case take_first (\<lambda>text. re_search U date_words text \<noteq> None) text_elements of
                  (None, rest) \<Rightarrow> (honor, rest)
                | (Some text, rest) \<Rightarrow> (honor\<lparr>honor_date := Some text\<rparr>, rest))
         in (case find (\<lambda>text. 20 < length text) text_elements of
               None \<Rightarrow> honor
             | Some text \<Rightarrow> honor\<lparr>honor_description := Some text\<rparr>)))"

definition parse_honor_item :: "unicode_db \<Rightarrow> element \<Rightarrow> honor_rec" where
  "parse_honor_item U item = honor_chain U (item_texts item)"

definition extract_honors_awards :: "unicode_db \<Rightarrow> element \<Rightarrow> profile_data \<Rightarrow> profile_data" where
  "extract_honors_awards U doc pd =
     (case find_section_by_header U doc (SECTION_HEADERS Honors) of
        None \<Rightarrow> pd
      | Some honors_section \<Rightarrow>
          (let list_items = get_list_items_from_section honors_section
           in pd\<lparr>honors_awards :=
                   append_accepted (parse_honor_item U) honor_title list_items (honors_awards pd)\<rparr>))"

subsection \<open>Volunteering\<close>

definition empty_volunteer :: volunteer_rec where
  "empty_volunteer =
     \<lparr>organization = None, vol_role = None, cause = None, date_range = None,
      vol_description = None\<rparr>"

definition is_cause :: "unicode_db \<Rightarrow> pstr \<Rightarrow> bool" where
  "is_cause U text \<longleftrightarrow>
     str_in (ascii ''cause'') (lower U text) \<or>
     any_in (map ascii [''Education'', ''Environment'', ''Health'']) text"

definition volunteer_chain :: "unicode_db \<Rightarrow> pstr list \<Rightarrow> volunteer_rec" where
  "volunteer_chain U text_elements =
     (case text_elements of
        [] \<Rightarrow> empty_volunteer
      | first # text_elements \<Rightarrow>
        (let volunteer = empty_volunteer\<lparr>vol_role := Some first\<rparr>;
             (volunteer, text_elements) =
               (case text_elements of
                  [] \<Rightarrow> (volunteer, text_elements)
                | text # rest \<Rightarrow> (volunteer\<lparr>organization := Some text\<rparr>, rest));
             (volunteer, text_elements) =
               (case take_first (\<lambda>text. re_search U date_words_present text \<noteq> None) text_elements of
                  (None, rest) \<Rightarrow> (volunteer, rest)
                | (Some text, rest) \<Rightarrow> (volunteer\<lparr>date_range := Some text\<rparr>, rest));
             (volunteer, text_elements) =
               (case take_first (is_cause U) text_elements of
                  (None, rest) \<Rightarrow> (volunteer, rest)
                | (Some text, rest) \<Rightarrow> (volunteer\<lparr>cause := Some text\<rparr>, rest))
         in (case find (\<lambda>text. 30 < length text) text_elements of
               None \<Rightarrow> volunteer
             | Some text \<Rightarrow> volunteer\<lparr>vol_description := Some text\<rparr>)))"

definition parse_volunteer_item :: "unicode_db \<Rightarrow> element \<Rightarrow> volunteer_rec" where
  "parse_volunteer_item U item = volunteer_chain U (item_texts item)"

definition extract_volunteering :: "unicode_db \<Rightarrow> element \<Rightarrow> profile_data \<Rightarrow> profile_data" where
  "extract_volunteering U doc pd =
     (case find_section_by_header U doc (SECTION_HEADERS Volunteering) of
        None \<Rightarrow> pd
      | Some volunteering_section \<Rightarrow>
          (let list_items = get_list_items_from_section volunteering_section
           in pd\<lparr>volunteering :=
                   append_accepted (parse_volunteer_item U) organization list_items
                     (volunteering pd)\<rparr>))"

section \<open>Basic profile and the orchestrator\<close>

text \<open>
  \<^verbatim>\<open>\b(area|region|country)\b\<close> and \<^verbatim>\<open>^[\w\s,]+,[\w\s,]+$\<close>, both without flags.
\<close>

definition area_pattern :: regex where
  "area_pattern =
     seqs [Wordb, Grp 1 (alts [lits ''area'', lits ''region'', lits ''country'']), Wordb]"

definition location_pattern :: regex where
  "location_pattern =
     seqs [Bol,
           Rep (Union Word (Union Space (Lit 44))) True 1 None,
           Chr (Lit 44),
           Rep (Union Word (Union Space (Lit 44))) True 1 None,
           Eol]"

fun first_name :: "element list \<Rightarrow> pstr option" where
  "first_name [] = None"
| "first_name (h1 # h1_tags) =
     (case elem_text h1 of
        None \<Rightarrow> first_name h1_tags
      | Some name \<Rightarrow> if length name < 100 then Some name else first_name h1_tags)"

definition is_headline :: "unicode_db \<Rightarrow> pstr option \<Rightarrow> pstr \<Rightarrow> bool" where
  "is_headline U name text \<longleftrightarrow>
     10 < length text \<and> length text < 200 \<and> Some text \<noteq> name \<and>
     re_search U area_pattern (lower U text) = None"

definition is_location :: "unicode_db \<Rightarrow> pstr \<Rightarrow> bool" where
  "is_location U text \<longleftrightarrow>
     any_in [ascii ''area'', ascii ''location'', ascii '',''] (lower U text) \<and>
     re_search U location_pattern text \<noteq> None \<and> length text < 100"

text \<open>\<open>max(paragraphs, key=len)\<close>: the first of the longest paragraphs.\<close>

fun longest :: "pstr \<Rightarrow> pstr list \<Rightarrow> pstr" where
  "longest best [] = best"
| "longest best (p # ps) = (if length best < length p then longest p ps else longest best ps)"

text \<open>The four parts of \<open>extract_basic_profile\<close>, in their order.\<close>

definition set_full_name :: "element list \<Rightarrow> basic_profile_rec \<Rightarrow> basic_profile_rec" where
  "set_full_name h1_tags bp =
     (case first_name h1_tags of
        None \<Rightarrow> bp
      | Some name \<Rightarrow> bp\<lparr>full_name := Some name\<rparr>)"

definition set_headline :: "unicode_db \<Rightarrow> element list \<Rightarrow> basic_profile_rec \<Rightarrow> basic_profile_rec" where
  "set_headline U h1_tags bp =
     (case h1_tags of
        [] \<Rightarrow> bp
      | h1 # _ \<Rightarrow>
          (case find_parent [''div'', ''section''] [] (fst h1) of
             None \<Rightarrow> bp
           | Some parent \<Rightarrow>
               (case find (is_headline U (full_name bp))
                       (texts_of (find_all [''div'', ''p'', ''span''] parent)) of
                  None \<Rightarrow> bp
                | Some text \<Rightarrow> bp\<lparr>headline := Some text\<rparr>)))"

definition set_location :: "unicode_db \<Rightarrow> element \<Rightarrow> basic_profile_rec \<Rightarrow> basic_profile_rec" where
  "set_location U doc bp =
     (case find (is_location U) (texts_of (find_all [''span'', ''div'', ''p''] doc)) of
        None \<Rightarrow> bp
      | Some text \<Rightarrow> bp\<lparr>bp_location := Some text\<rparr>)"

definition set_summary :: "unicode_db \<Rightarrow> element \<Rightarrow> basic_profile_rec \<Rightarrow> basic_profile_rec" where
  "set_summary U doc bp =
     (case find_section_by_header U doc (SECTION_HEADERS About) of
        None \<Rightarrow> bp
      | Some about_section \<Rightarrow>
          (case filter (\<lambda>text. lower U text \<notin> set (SECTION_HEADERS About) \<and> 20 < length text)
                  (texts_of (find_all [''p'', ''div'', ''span''] about_section)) of
             [] \<Rightarrow> bp
           | p # paragraphs \<Rightarrow> bp\<lparr>profile_summary := Some (longest p paragraphs)\<rparr>))"

definition extract_basic_profile :: "unicode_db \<Rightarrow> element \<Rightarrow> profile_data \<Rightarrow> profile_data" where
  "extract_basic_profile U doc pd =
     pd\<lparr>basic_profile :=
          set_summary U doc
            (set_location U doc
              (set_headline U (find_all [''h1''] doc)
                (set_full_name (find_all [''h1''] doc) (basic_profile pd))))\<rparr>"

text \<open>
  The method \<^verbatim>\<open>extract\<close> (a reserved word here, so \<open>extract_profile\<close>), on the contents
  of the parsed document: the constructor makes the soup and the initial structure, the
  eight extractors run in their order.
\<close>

definition extract_profile :: "unicode_db \<Rightarrow> node list \<Rightarrow> profile_data" where
  "extract_profile U contents =
     (let doc = soup contents;
          pd = initialize_structure;
          pd = extract_basic_profile U doc pd;
          pd = extract_experience U doc pd;
          pd = extract_education U doc pd;
          pd = extract_skills U doc pd;
          pd = extract_certifications U doc pd;
          pd = extract_projects U doc pd;
          pd = extract_honors_awards U doc pd;
          pd = extract_volunteering U doc pd
      in pd)"

section \<open>Definitions used to state the properties\<close>

text \<open>The sub-blocks of a section: none when the section is not found.\<close>

definition section_items :: "unicode_db \<Rightarrow> element \<Rightarrow> section_key \<Rightarrow> element list" where
  "section_items U doc key =
     (case find_section_by_header U doc (SECTION_HEADERS key) of
        None \<Rightarrow> []
      | Some s \<Rightarrow> get_list_items_from_section s)"

text \<open>A list of strings in which no string occurs inside one that comes before it.\<close>

fun no_later_inside :: "pstr list \<Rightarrow> bool" where
  "no_later_inside [] = True"
| "no_later_inside (s # rest) = (list_all (\<lambda>t. \<not> str_in t s) rest \<and> no_later_inside rest)"

text \<open>
  The concrete examples below are written in ASCII, the middle dot and the en dash, all
  of them in the blocks that are written out, so they hold for every database.  Where
  an example has to be closed it is stated for \<open>basic_db\<close>, which knows no digit, no
  letter and no upper case outside these blocks.
\<close>

definition basic_db :: unicode_db where
  "basic_db = \<lparr>uni_decimal = (\<lambda>c. False), uni_alnum = (\<lambda>c. False), uni_lower = (\<lambda>s. s)\<rparr>"

text \<open>
  An experience section with three list items: a job with all its fields, an item whose
  only text is white space, and a job without employment type and location.  The
  \<open>section\<close> tags of the example documents carry an attribute named \<open>recursive\<close>, which
  the section locator asks for.
\<close>

definition experience_doc :: "node list" where
  "experience_doc =
     [Tag ''section'' [''recursive'']
        [Tag ''h2'' [] [Text (ascii ''Experience'')],
         Tag ''ul'' []
           [Tag ''li'' []
              [Tag ''span'' [] [Text (ascii ''Software Engineer'')],
               Tag ''span'' [] [Text (ascii ''Acme Corp'')],
               Tag ''span'' [] [Text (ascii ''Full-time'')],
               Tag ''span'' [] [Text (ascii ''Jan 2020 - Present '' @ [middle_dot] @ ascii '' 3 yrs'')],
               Tag ''span'' [] [Text (ascii ''Remote'')]],
            Tag ''li'' [] [Tag ''span'' [] [Text (ascii ''   '')]],
            Tag ''li'' []
              [Tag ''span'' [] [Text (ascii ''Intern'')],
               Tag ''span'' [] [Text (ascii ''Beta Inc'')],
               Tag ''span'' [] [Text (ascii ''Jun 2018 - Aug 2018'')]]]]]"

definition blank_item :: element where
  "blank_item = ([], Tag ''li'' [] [Tag ''span'' [] [Text (ascii ''   '')]])"

text \<open>
  Two experience sections for the current company.  In the first the job that is held
  now comes second, with its end date in upper case, and is followed by another job
  that is held now; in the second no job is held now.
\<close>

definition current_doc :: "node list" where
  "current_doc =
     [Tag ''section'' [''recursive'']
        [Tag ''h2'' [] [Text (ascii ''Experience'')],
         Tag ''ul'' []
           [Tag ''li'' []
              [Tag ''span'' [] [Text (ascii ''Intern'')],
               Tag ''span'' [] [Text (ascii ''Beta Inc'')],
               Tag ''span'' [] [Text (ascii ''Jun 2018 - Aug 2018'')]],
            Tag ''li'' []
              [Tag ''span'' [] [Text (ascii ''Software Engineer'')],
               Tag ''span'' [] [Text (ascii ''Acme Corp'')],
               Tag ''span'' [] [Text (ascii ''Full-time'')],
               Tag ''span'' [] [Text (ascii ''Jan 2020 - PRESENT '' @ [middle_dot] @ ascii '' 3 yrs'')],
               Tag ''span'' [] [Text (ascii ''Remote'')]],
            Tag ''li'' []
              [Tag ''span'' [] [Text (ascii ''Consultant'')],
               Tag ''span'' [] [Text (ascii ''Gamma LLC'')],
               Tag ''span'' [] [Text (ascii ''Mar 2021 - present'')]]]]]"

definition past_doc :: "node list" where
  "past_doc =
     [Tag ''section'' [''recursive'']
        [Tag ''h2'' [] [Text (ascii ''Experience'')],
         Tag ''ul'' []
           [Tag ''li'' []
              [Tag ''span'' [] [Text (ascii ''Intern'')],
               Tag ''span'' [] [Text (ascii ''Beta Inc'')],
               Tag ''span'' [] [Text (ascii ''Jun 2018 - Aug 2018'')]],
            Tag ''li'' []
              [Tag ''span'' [] [Text (ascii ''Clerk'')],
               Tag ''span'' [] [Text (ascii ''Delta Co'')],
               Tag ''span'' [] [Text (ascii ''2016 - 2017'')]]]]]"

text \<open>Two skills sections with the same three skills in two orders.\<close>

definition skills_doc :: "node list" where
  "skills_doc =
     [Tag ''section'' [''recursive'']
        [Tag ''h2'' [] [Text (ascii ''Skills'')],
         Tag ''p'' [] [Text (ascii ''Python'')],
         Tag ''p'' [] [Text (ascii ''Python Programming'')],
         Tag ''p'' [] [Text (ascii ''SQL'')]]]"

definition skills_doc_rev :: "node list" where
  "skills_doc_rev =
     [Tag ''section'' [''recursive'']
        [Tag ''h2'' [] [Text (ascii ''Skills'')],
         Tag ''p'' [] [Text (ascii ''Python Programming'')],
         Tag ''p'' [] [Text (ascii ''Python'')],
         Tag ''p'' [] [Text (ascii ''SQL'')]]]"

text \<open>
  Three sections for the block segmenter: one with list items and with repeated
  \<open>div\<close>s, one with repeated \<open>div\<close>s only, one with neither.
\<close>

definition list_section :: element where
  "list_section =
     ([], Tag ''section'' []
            [Tag ''div'' [] [Tag ''div'' [] [], Tag ''div'' [] []],
             Tag ''ul'' [] [Tag ''li'' [] [Text (ascii ''a'')], Tag ''li'' [] [Text (ascii ''b'')]]])"

definition div_section :: element where
  "div_section =
     ([], Tag ''section'' []
            [Tag ''div'' [] [Tag ''div'' [] [Text (ascii ''a'')]],
             Tag ''div'' [] [Tag ''div'' [] [Text (ascii ''b'')], Tag ''p'' [] [], Tag ''div'' [] [Text (ascii ''c'')]]])"

definition plain_section :: element where
  "plain_section = ([], Tag ''section'' [] [Tag ''div'' [] [Tag ''div'' [] [Text (ascii ''a'')]], Tag ''p'' [] []])"

text \<open>
  The section locator as the specification words it: the first node that matches a
  keyword decides, and the result is its nearest \<open>section\<close> or \<open>div\<close> ancestor.
  \<open>header_hit\<close> is the test of the source for one node.
\<close>

definition header_hit :: "unicode_db \<Rightarrow> pstr list \<Rightarrow> element \<Rightarrow> bool" where
  "header_hit U header_keywords element =
     (case elem_text element of
        None \<Rightarrow> False
      | Some text \<Rightarrow> list_ex (keyword_matches U (lower U text)) header_keywords)"

definition first_match_section :: "unicode_db \<Rightarrow> element \<Rightarrow> pstr list \<Rightarrow> element option" where
  "first_match_section U doc header_keywords =
     (case find (header_hit U header_keywords)
             (find_all [''h2'', ''h3'', ''h4'', ''span'', ''div''] doc) of
        None \<Rightarrow> None
      | Some element \<Rightarrow> find_parent [''section'', ''div''] [] (fst element))"

text \<open>
  A document whose only heading \<open>Education\<close> stands in a \<open>div\<close>, and the same document
  with an attribute named \<open>recursive\<close> on the \<open>div\<close>.
\<close>

definition education_doc :: "node list" where
  "education_doc =
     [Tag ''div'' []
        [Tag ''p'' [] [Text (ascii ''Profile'')],
         Tag ''h2'' [] [Text (ascii ''Education'')],
         Tag ''ul'' []
           [Tag ''li'' []
              [Tag ''span'' [] [Text (ascii ''MIT'')],
               Tag ''span'' [] [Text (ascii ''2015 - 2019'')]]]]]"

definition education_doc_marked :: "node list" where
  "education_doc_marked =
     [Tag ''div'' [''recursive'']
        [Tag ''p'' [] [Text (ascii ''Profile'')],
         Tag ''h2'' [] [Text (ascii ''Education'')],
         Tag ''ul'' []
           [Tag ''li'' []
              [Tag ''span'' [] [Text (ascii ''MIT'')],
               Tag ''span'' [] [Text (ascii ''2015 - 2019'')]]]]]"

text \<open>Two education items, with two years and with one.\<close>

definition education_item :: element where
  "education_item =
     ([], Tag ''li'' [] [Tag ''span'' [] [Text (ascii ''MIT'')], Tag ''span'' [] [Text (ascii ''2015 - 2019'')]])"

definition graduated_item :: element where
  "graduated_item =
     ([], Tag ''li'' [] [Tag ''span'' [] [Text (ascii ''MIT'')], Tag ''span'' [] [Text (ascii ''Graduated 2020'')]])"

text \<open>
  The first state of \<open>rx\<close>, that is the match that the backtracking matcher reports.
\<close>

definition rx_first :: "unicode_db \<Rightarrow> regex \<Rightarrow> mstate \<Rightarrow> mstate option" where
  "rx_first U r s = (case rx U r s of [] \<Rightarrow> None | t # _ \<Rightarrow> Some t)"

text \<open>
  The texts of the date grammar: a word of ASCII letters in either case (the month), a
  year of four ASCII digits, and the word \<open>present\<close> in any mixture of cases.
\<close>

definition ascii_letter :: "nat \<Rightarrow> bool" where
  "ascii_letter c \<longleftrightarrow> (65 \<le> c \<and> c \<le> 90) \<or> (97 \<le> c \<and> c \<le> 122)"

definition ascii_digit :: "nat \<Rightarrow> bool" where
  "ascii_digit c \<longleftrightarrow> 48 \<le> c \<and> c \<le> 57"

definition word_text :: "pstr \<Rightarrow> bool" where
  "word_text w \<longleftrightarrow> w \<noteq> [] \<and> list_all ascii_letter w"

definition year_text :: "pstr \<Rightarrow> bool" where
  "year_text y \<longleftrightarrow> length y = 4 \<and> list_all ascii_digit y"

definition present_text :: "pstr \<Rightarrow> bool" where
  "present_text p \<longleftrightarrow> map lower_char p = ascii ''present'' \<and> list_all ascii_letter p"

text \<open>A character that is neither white space nor the middle dot.\<close>

definition plain :: "nat \<Rightarrow> bool" where
  "plain c \<longleftrightarrow> \<not> is_space c \<and> c \<noteq> middle_dot"

text \<open>
  The end of the duration pattern, \<^verbatim>\<open>(?:\s*.|$)\<close> with the middle dot for the dot, and a
  duration text: not empty, without middle dot and line feed, with no white space at
  its ends.
\<close>

definition duration_tail :: regex where
  "duration_tail = Alt (Seq (Rep Space True 0 None) (Chr (Lit middle_dot))) Eol"

definition duration_text :: "pstr \<Rightarrow> bool" where
  "duration_text d \<longleftrightarrow>
     d \<noteq> [] \<and> list_all (\<lambda>c. c \<noteq> middle_dot \<and> c \<noteq> 10) d \<and>
     \<not> is_space (hd d) \<and> \<not> is_space (last d)"

section \<open>Properties\<close>

lemmas text_defs =
  ascii_def middle_dot_def en_dash_def tabled_def is_space_def is_decimal_def is_alnum_def
  is_word_def lower_char_def lower_def fold_case_def strip_def truthy_def normalize_text_def
  any_in_def

lemmas regex_defs =
  Lit_def LitI_def AlphaI_def Digit_def Space_def Word_def Dot_def Union_def lits_def litsI_def
  re_search_def group_def group1_def re_findall_def

lemmas dom_defs =
  soup_def find_all_def elem_text_def keyword_matches_def find_section_by_header_def
  direct_div_children_def get_list_items_from_section_def item_texts_def

subsection \<open>Substrings\<close>

lemma startswith_iff: "startswith s p \<longleftrightarrow> (\<exists>ss. s = p @ ss)"
  by (induction s p rule: startswith.induct) auto

text \<open>\<open>str_in sub s\<close> is Python's \<open>sub in s\<close>: \<open>sub\<close> occurs in \<open>s\<close> as a run of characters.\<close>

lemma str_in_iff: "str_in sub s \<longleftrightarrow> (\<exists>ps ss. s = ps @ sub @ ss)"
proof (induction s)
  case Nil
  then show ?case by simp
next
  case (Cons c cs)
  show ?case
  proof
    assume "str_in sub (c # cs)"
    then consider "startswith (c # cs) sub" | "str_in sub cs" by auto
    then show "\<exists>ps ss. c # cs = ps @ sub @ ss"
    proof cases
      case 1
      then obtain ss where "c # cs = sub @ ss" by (auto simp: startswith_iff)
      then have "c # cs = [] @ sub @ ss" by simp
      then show ?thesis by blast
    next
      case 2
      with Cons.IH obtain ps ss where "cs = ps @ sub @ ss" by blast
      then have "c # cs = (c # ps) @ sub @ ss" by simp
      then show ?thesis by blast
    qed
  next
    assume "\<exists>ps ss. c # cs = ps @ sub @ ss"
    then obtain ps ss where eq: "c # cs = ps @ sub @ ss" by blast
    show "str_in sub (c # cs)"
    proof (cases ps)
      case Nil
      with eq have "startswith (c # cs) sub" by (auto simp: startswith_iff)
      then show ?thesis by simp
    next
      case (Cons a ps')
      with eq have "cs = ps' @ sub @ ss" by simp
      with Cons.IH have "str_in sub cs" by blast
      then show ?thesis by simp
    qed
  qed
qed

subsection \<open>What each extractor changes\<close>

lemma append_accepted_filter:
  "append_accepted parse ident items acc = acc @ filter (\<lambda>r. truthy (ident r)) (map parse items)"
  by (induction items arbitrary: acc) (simp_all add: Let_def)

lemma scan_current_find:
  "scan_current U exps bp =
     (case find (is_present U) exps of
        None \<Rightarrow> bp
      | Some e \<Rightarrow> bp\<lparr>current_company := company_name e\<rparr>)"
  by (induction exps) simp_all

lemma frame_basic_profile:
  "experience (extract_basic_profile U doc pd) = experience pd"
  "education (extract_basic_profile U doc pd) = education pd"
  "skills (extract_basic_profile U doc pd) = skills pd"
  "certifications (extract_basic_profile U doc pd) = certifications pd"
  "projects (extract_basic_profile U doc pd) = projects pd"
  "honors_awards (extract_basic_profile U doc pd) = honors_awards pd"
  "volunteering (extract_basic_profile U doc pd) = volunteering pd"
  by (simp_all add: extract_basic_profile_def)

lemma current_company_steps:
  "current_company (set_full_name h1_tags bp) = current_company bp"
  "current_company (set_headline U h1_tags bp) = current_company bp"
  "current_company (set_location U doc bp) = current_company bp"
  "current_company (set_summary U doc bp) = current_company bp"
  by (simp_all add: set_summary_def set_location_def set_headline_def set_full_name_def
      split: option.split list.split)

lemma current_company_basic_profile:
  "current_company (basic_profile (extract_basic_profile U doc pd)) =
     current_company (basic_profile pd)"
  by (simp add: extract_basic_profile_def current_company_steps)

lemma frame_experience:
  "education (extract_experience U doc pd) = education pd"
  "skills (extract_experience U doc pd) = skills pd"
  "certifications (extract_experience U doc pd) = certifications pd"
  "projects (extract_experience U doc pd) = projects pd"
  "honors_awards (extract_experience U doc pd) = honors_awards pd"
  "volunteering (extract_experience U doc pd) = volunteering pd"
  by (simp_all add: extract_experience_def Let_def split: option.split)

lemma frame_education:
  "basic_profile (extract_education U doc pd) = basic_profile pd"
  "experience (extract_education U doc pd) = experience pd"
  "skills (extract_education U doc pd) = skills pd"
  "certifications (extract_education U doc pd) = certifications pd"
  "projects (extract_education U doc pd) = projects pd"
  "honors_awards (extract_education U doc pd) = honors_awards pd"
  "volunteering (extract_education U doc pd) = volunteering pd"
  by (simp_all add: extract_education_def Let_def split: option.split)

lemma frame_skills:
  "basic_profile (extract_skills U doc pd) = basic_profile pd"
  "experience (extract_skills U doc pd) = experience pd"
  "education (extract_skills U doc pd) = education pd"
  "certifications (extract_skills U doc pd) = certifications pd"
  "projects (extract_skills U doc pd) = projects pd"
  "honors_awards (extract_skills U doc pd) = honors_awards pd"
  "volunteering (extract_skills U doc pd) = volunteering pd"
  by (simp_all add: extract_skills_def split: option.split)

lemma frame_certifications:
  "basic_profile (extract_certifications U doc pd) = basic_profile pd"
  "experience (extract_certifications U doc pd) = experience pd"
  "education (extract_certifications U doc pd) = education pd"
  "skills (extract_certifications U doc pd) = skills pd"
  "projects (extract_certifications U doc pd) = projects pd"
  "honors_awards (extract_certifications U doc pd) = honors_awards pd"
  "volunteering (extract_certifications U doc pd) = volunteering pd"
  by (simp_all add: extract_certifications_def Let_def split: option.split)

lemma frame_projects:
  "basic_profile (extract_projects U doc pd) = basic_profile pd"
  "experience (extract_projects U doc pd) = experience pd"
  "education (extract_projects U doc pd) = education pd"
  "skills (extract_projects U doc pd) = skills pd"
  "certifications (extract_projects U doc pd) = certifications pd"
  "honors_awards (extract_projects U doc pd) = honors_awards pd"
  "volunteering (extract_projects U doc pd) = volunteering pd"
  by (simp_all add: extract_projects_def Let_def split: option.split)

lemma frame_honors_awards:
  "basic_profile (extract_honors_awards U doc pd) = basic_profile pd"
  "experience (extract_honors_awards U doc pd) = experience pd"
  "education (extract_honors_awards U doc pd) = education pd"
  "skills (extract_honors_awards U doc pd) = skills pd"
  "certifications (extract_honors_awards U doc pd) = certifications pd"
  "projects (extract_honors_awards U doc pd) = projects pd"
  "volunteering (extract_honors_awards U doc pd) = volunteering pd"
  by (simp_all add: extract_honors_awards_def Let_def split: option.split)

lemma frame_volunteering:
  "basic_profile (extract_volunteering U doc pd) = basic_profile pd"
  "experience (extract_volunteering U doc pd) = experience pd"
  "education (extract_volunteering U doc pd) = education pd"
  "skills (extract_volunteering U doc pd) = skills pd"
  "certifications (extract_volunteering U doc pd) = certifications pd"
  "projects (extract_volunteering U doc pd) = projects pd"
  "honors_awards (extract_volunteering U doc pd) = honors_awards pd"
  by (simp_all add: extract_volunteering_def Let_def split: option.split)

lemmas frames =
  frame_basic_profile frame_experience frame_education frame_skills frame_certifications
  frame_projects frame_honors_awards frame_volunteering

lemma init_fields:
  "experience initialize_structure = []"
  "education initialize_structure = []"
  "skills initialize_structure = []"
  "certifications initialize_structure = []"
  "projects initialize_structure = []"
  "honors_awards initialize_structure = []"
  "volunteering initialize_structure = []"
  "current_company (basic_profile initialize_structure) = None"
  by (simp_all add: initialize_structure_def)

lemma experience_after_experience:
  "experience (extract_experience U doc pd) =
     experience pd @
     filter (\<lambda>r. truthy (job_title r))
       (map (parse_experience_item U) (section_items U doc Experience))"
  by (simp add: extract_experience_def section_items_def append_accepted_filter Let_def
      split: option.split)

lemma basic_after_experience:
  "experience pd = [] \<Longrightarrow>
   basic_profile (extract_experience U doc pd) =
     scan_current U (experience (extract_experience U doc pd)) (basic_profile pd)"
  by (simp add: extract_experience_def Let_def split: option.split)

lemma education_after_education:
  "education (extract_education U doc pd) =
     education pd @
     filter (\<lambda>r. truthy (institution_name r))
       (map (parse_education_item U) (section_items U doc Education))"
  by (simp add: extract_education_def section_items_def append_accepted_filter Let_def
      split: option.split)

lemma certifications_after_certifications:
  "certifications (extract_certifications U doc pd) =
     certifications pd @
     filter (\<lambda>r. truthy (cert_name r))
       (map (parse_certification_item U) (section_items U doc Certifications))"
  by (simp add: extract_certifications_def section_items_def append_accepted_filter Let_def
      split: option.split)

lemma projects_after_projects:
  "projects (extract_projects U doc pd) =
     projects pd @
     filter (\<lambda>r. truthy (project_name r))
       (map (parse_project_item U) (section_items U doc Projects))"
  by (simp add: extract_projects_def section_items_def append_accepted_filter Let_def
      split: option.split)

lemma honors_after_honors:
  "honors_awards (extract_honors_awards U doc pd) =
     honors_awards pd @
     filter (\<lambda>r. truthy (honor_title r))
       (map (parse_honor_item U) (section_items U doc Honors))"
  by (simp add: extract_honors_awards_def section_items_def append_accepted_filter Let_def
      split: option.split)

lemma volunteering_after_volunteering:
  "volunteering (extract_volunteering U doc pd) =
     volunteering pd @
     filter (\<lambda>r. truthy (organization r))
       (map (parse_volunteer_item U) (section_items U doc Volunteering))"
  by (simp add: extract_volunteering_def section_items_def append_accepted_filter Let_def
      split: option.split)

lemma skills_after_skills:
  "skills (extract_skills U doc pd) =
     (case find_section_by_header U doc (SECTION_HEADERS Skills) of
        None \<Rightarrow> skills pd
      | Some s \<Rightarrow> skills_loop U (texts_of (find_all [''span'', ''div'', ''li'', ''p''] s)) [])"
  by (simp add: extract_skills_def split: option.split)

lemma experience_extract_profile:
  "experience (extract_profile U c) =
     filter (\<lambda>r. truthy (job_title r))
       (map (parse_experience_item U) (section_items U (soup c) Experience))"
  by (simp add: extract_profile_def Let_def frames experience_after_experience init_fields)

lemma skills_extract_profile:
  "skills (extract_profile U c) =
     (case find_section_by_header U (soup c) (SECTION_HEADERS Skills) of
        None \<Rightarrow> []
      | Some s \<Rightarrow> skills_loop U (texts_of (find_all [''span'', ''div'', ''li'', ''p''] s)) [])"
  by (simp add: extract_profile_def Let_def frames skills_after_skills init_fields
      split: option.split)

subsection \<open>The empty document\<close>

lemma find_all_empty: "find_all names (soup []) = []"
  by (simp add: find_all_def soup_def)

lemma find_section_empty: "find_section_by_header U (soup []) kws = None"
  by (simp add: find_section_by_header_def find_all_empty)

text \<open>
  Claim C8.  For the document without any node the orchestrator returns the initial
  structure: the five fields of the basic profile are unset and every record list is
  empty (the structure holds seven lists beside the basic profile).  No operation of the
  extractor can raise on a parsed tree, so the model has no error value and
  \<open>extract_profile\<close> is a total function.
\<close>

theorem empty_document_gives_empty_result:
  "extract_profile U [] = initialize_structure \<and>
   basic_profile (extract_profile U []) =
     \<lparr>full_name = None, headline = None, bp_location = None, current_company = None,
      profile_summary = None\<rparr> \<and>
   experience (extract_profile U []) = [] \<and>
   education (extract_profile U []) = [] \<and>
   skills (extract_profile U []) = [] \<and>
   certifications (extract_profile U []) = [] \<and>
   projects (extract_profile U []) = [] \<and>
   honors_awards (extract_profile U []) = [] \<and>
   volunteering (extract_profile U []) = []"
proof -
  have "extract_profile U [] = initialize_structure"
    by (simp add: extract_profile_def extract_basic_profile_def extract_experience_def
        extract_education_def extract_skills_def extract_certifications_def
        extract_projects_def extract_honors_awards_def extract_volunteering_def
        set_summary_def set_location_def set_headline_def set_full_name_def
        find_all_empty find_section_empty)
  then show ?thesis by (simp add: initialize_structure_def)
qed

subsection \<open>Block segmenter\<close>

lemma scan_containers_find:
  "scan_containers cs =
     (case find (\<lambda>c. 2 \<le> length (direct_div_children c)) cs of
        None \<Rightarrow> []
      | Some c \<Rightarrow> direct_div_children c)"
  by (induction cs) (simp_all add: Let_def)

text \<open>
  Claim C5.  The block segmenter returns the list items of the section when it has any,
  at any depth.  Otherwise it looks through the containers below the section (\<open>ul\<close>,
  \<open>ol\<close>, \<open>div\<close>) in document order and returns the direct \<open>div\<close> children of the first
  one that has at least two of them.  Otherwise it returns the empty list.
\<close>

theorem block_segmenter_tiers:
  "get_list_items_from_section s =
     (if find_all [''li''] s \<noteq> [] then find_all [''li''] s
      else (case find (\<lambda>c. 2 \<le> length (filter (\<lambda>ch. named [''div''] (snd ch)) (children c)))
                  (find_all [''ul'', ''ol'', ''div''] s) of
              None \<Rightarrow> []
            | Some c \<Rightarrow> filter (\<lambda>ch. named [''div''] (snd ch)) (children c)))"
  by (simp add: get_list_items_from_section_def scan_containers_find direct_div_children_def Let_def
      split: option.split)

theorem block_segmenter_tiers_witness:
  "map snd (get_list_items_from_section list_section) =
     [Tag ''li'' [] [Text (ascii ''a'')], Tag ''li'' [] [Text (ascii ''b'')]] \<and>
   map snd (get_list_items_from_section div_section) =
     [Tag ''div'' [] [Text (ascii ''b'')], Tag ''div'' [] [Text (ascii ''c'')]] \<and>
   get_list_items_from_section plain_section = []"
  using block_segmenter_tiers [of list_section] block_segmenter_tiers [of div_section]
    block_segmenter_tiers [of plain_section]
  by (simp add: list_section_def div_section_def plain_section_def find_all_def)

subsection \<open>Record acceptance\<close>

lemmas pattern_defs =
  month_year_def year4_def date_pattern_def duration_pattern_def year_pattern_def
  month_words_def date_words_def date_words_present_def

lemmas experience_defs =
  experience_chain_def empty_experience_def title_ok_def is_employment_type_def
  is_experience_date_def is_experience_location_def extract_date_range_def take_first_def

lemma parse_experience_items:
  "map (parse_experience_item U) items =
     map (\<lambda>p. experience_chain U (fst p) (snd p))
       (map (\<lambda>item. (item_texts item, find_all [''li''] item)) items)"
  by (simp add: parse_experience_item_def)

lemma experience_doc_items:
  "map (\<lambda>item. (item_texts item, find_all [''li''] item))
     (section_items U (soup experience_doc) Experience) =
     [([ascii ''Software Engineer'', ascii ''Acme Corp'', ascii ''Full-time'',
        ascii ''Jan 2020 - Present '' @ [middle_dot] @ ascii '' 3 yrs'', ascii ''Remote''], []),
      ([], []),
      ([ascii ''Intern'', ascii ''Beta Inc'', ascii ''Jun 2018 - Aug 2018''], [])]"
  by (simp add: experience_doc_def section_items_def dom_defs text_defs)

lemma experience_chain_engineer:
  "experience_chain U
     [ascii ''Software Engineer'', ascii ''Acme Corp'', ascii ''Full-time'',
      ascii ''Jan 2020 - Present '' @ [middle_dot] @ ascii '' 3 yrs'', ascii ''Remote''] [] =
   \<lparr>job_title = Some (ascii ''Software Engineer''), company_name = Some (ascii ''Acme Corp''),
    employment_type = Some (ascii ''Full-time''), start_date = Some (ascii ''Jan 2020''),
    end_date = Some (ascii ''Present''), duration = Some (ascii ''3 yrs''),
    exp_location = Some (ascii ''Remote''), exp_description = []\<rparr>"
  by (simp add: experience_defs pattern_defs regex_defs text_defs Let_def)

lemma experience_chain_intern:
  "experience_chain U [ascii ''Intern'', ascii ''Beta Inc'', ascii ''Jun 2018 - Aug 2018''] [] =
   \<lparr>job_title = Some (ascii ''Intern''), company_name = Some (ascii ''Beta Inc''),
    employment_type = None, start_date = Some (ascii ''Jun 2018''),
    end_date = Some (ascii ''Aug 2018''), duration = None,
    exp_location = None, exp_description = []\<rparr>"
  by (simp add: experience_defs pattern_defs regex_defs text_defs Let_def)

lemma experience_chain_no_texts: "experience_chain U [] lis = empty_experience"
  by (simp add: experience_chain_def)

lemma experience_doc_records:
  "map (parse_experience_item U) (section_items U (soup experience_doc) Experience) =
     [\<lparr>job_title = Some (ascii ''Software Engineer''), company_name = Some (ascii ''Acme Corp''),
       employment_type = Some (ascii ''Full-time''), start_date = Some (ascii ''Jan 2020''),
       end_date = Some (ascii ''Present''), duration = Some (ascii ''3 yrs''),
       exp_location = Some (ascii ''Remote''), exp_description = []\<rparr>,
      empty_experience,
      \<lparr>job_title = Some (ascii ''Intern''), company_name = Some (ascii ''Beta Inc''),
       employment_type = None, start_date = Some (ascii ''Jun 2018''),
       end_date = Some (ascii ''Aug 2018''), duration = None,
       exp_location = None, exp_description = []\<rparr>]"
  by (simp only: parse_experience_items experience_doc_items list.map fst_conv snd_conv
      experience_chain_engineer experience_chain_intern experience_chain_no_texts)

text \<open>
  Claim C6.  Each of the six record lists of the result holds, in the order of the
  sub-blocks of its section, the record of every sub-block whose identity field is
  neither unset nor empty, and no other record: a record is in the list exactly when
  its identity field is non-empty, and nothing is reported for a record that is left
  out.  A sub-block without any text after normalization gives a record without job
  title, which is therefore left out.
\<close>

theorem record_accepted_iff_identity:
  "experience (extract_profile U c) =
     filter (\<lambda>r. truthy (job_title r))
       (map (parse_experience_item U) (section_items U (soup c) Experience)) \<and>
   education (extract_profile U c) =
     filter (\<lambda>r. truthy (institution_name r))
       (map (parse_education_item U) (section_items U (soup c) Education)) \<and>
   certifications (extract_profile U c) =
     filter (\<lambda>r. truthy (cert_name r))
       (map (parse_certification_item U) (section_items U (soup c) Certifications)) \<and>
   projects (extract_profile U c) =
     filter (\<lambda>r. truthy (project_name r))
       (map (parse_project_item U) (section_items U (soup c) Projects)) \<and>
   honors_awards (extract_profile U c) =
     filter (\<lambda>r. truthy (honor_title r))
       (map (parse_honor_item U) (section_items U (soup c) Honors)) \<and>
   volunteering (extract_profile U c) =
     filter (\<lambda>r. truthy (organization r))
       (map (parse_volunteer_item U) (section_items U (soup c) Volunteering)) \<and>
   (item_texts item = [] \<longrightarrow> \<not> truthy (job_title (parse_experience_item U item)))"
  by (simp add: extract_profile_def Let_def frames experience_after_experience
      education_after_education certifications_after_certifications projects_after_projects
      honors_after_honors volunteering_after_volunteering init_fields
      parse_experience_item_def experience_chain_no_texts empty_experience_def truthy_def)

theorem record_accepted_iff_identity_witness:
  "experience (extract_profile basic_db experience_doc) =
     [\<lparr>job_title = Some (ascii ''Software Engineer''), company_name = Some (ascii ''Acme Corp''),
       employment_type = Some (ascii ''Full-time''), start_date = Some (ascii ''Jan 2020''),
       end_date = Some (ascii ''Present''), duration = Some (ascii ''3 yrs''),
       exp_location = Some (ascii ''Remote''), exp_description = []\<rparr>,
      \<lparr>job_title = Some (ascii ''Intern''), company_name = Some (ascii ''Beta Inc''),
       employment_type = None, start_date = Some (ascii ''Jun 2018''),
       end_date = Some (ascii ''Aug 2018''), duration = None,
       exp_location = None, exp_description = []\<rparr>] \<and>
   item_texts blank_item = [] \<and>
   \<not> truthy (job_title (parse_experience_item basic_db blank_item))"
proof -
  have texts: "item_texts blank_item = []"
    by (simp add: blank_item_def dom_defs text_defs)
  have keep: "truthy (Some (ascii ''Software Engineer''))" "truthy (Some (ascii ''Intern''))"
    by (simp_all add: truthy_def ascii_def)
  show ?thesis
    using record_accepted_iff_identity [of basic_db experience_doc blank_item] texts keep
    by (simp add: experience_doc_records empty_experience_def truthy_def)
qed

subsection \<open>Current company\<close>

lemma is_present_iff:
  "is_present U e \<longleftrightarrow>
     (case end_date e of None \<Rightarrow> False | Some s \<Rightarrow> lower U s = ascii ''present'')"
  by (auto simp add: is_present_def truthy_def lower_def ascii_def split: option.split)

lemma find_is_present:
  "find (is_present U) exps =
   find (\<lambda>e. case end_date e of None \<Rightarrow> False | Some s \<Rightarrow> lower U s = ascii ''present'') exps"
  by (induction exps) (simp_all add: is_present_iff)

lemma current_doc_items:
  "map (\<lambda>item. (item_texts item, find_all [''li''] item))
     (section_items U (soup current_doc) Experience) =
     [([ascii ''Intern'', ascii ''Beta Inc'', ascii ''Jun 2018 - Aug 2018''], []),
      ([ascii ''Software Engineer'', ascii ''Acme Corp'', ascii ''Full-time'',
        ascii ''Jan 2020 - PRESENT '' @ [middle_dot] @ ascii '' 3 yrs'', ascii ''Remote''], []),
      ([ascii ''Consultant'', ascii ''Gamma LLC'', ascii ''Mar 2021 - present''], [])]"
  by (simp add: current_doc_def section_items_def dom_defs text_defs)

lemma past_doc_items:
  "map (\<lambda>item. (item_texts item, find_all [''li''] item))
     (section_items U (soup past_doc) Experience) =
     [([ascii ''Intern'', ascii ''Beta Inc'', ascii ''Jun 2018 - Aug 2018''], []),
      ([ascii ''Clerk'', ascii ''Delta Co'', ascii ''2016 - 2017''], [])]"
  by (simp add: past_doc_def section_items_def dom_defs text_defs)

lemma experience_chain_engineer_upper:
  "experience_chain U
     [ascii ''Software Engineer'', ascii ''Acme Corp'', ascii ''Full-time'',
      ascii ''Jan 2020 - PRESENT '' @ [middle_dot] @ ascii '' 3 yrs'', ascii ''Remote''] [] =
   \<lparr>job_title = Some (ascii ''Software Engineer''), company_name = Some (ascii ''Acme Corp''),
    employment_type = Some (ascii ''Full-time''), start_date = Some (ascii ''Jan 2020''),
    end_date = Some (ascii ''PRESENT''), duration = Some (ascii ''3 yrs''),
    exp_location = Some (ascii ''Remote''), exp_description = []\<rparr>"
  by (simp add: experience_defs pattern_defs regex_defs text_defs Let_def)

lemma experience_chain_consultant:
  "experience_chain U [ascii ''Consultant'', ascii ''Gamma LLC'', ascii ''Mar 2021 - present''] [] =
   \<lparr>job_title = Some (ascii ''Consultant''), company_name = Some (ascii ''Gamma LLC''),
    employment_type = None, start_date = Some (ascii ''Mar 2021''),
    end_date = Some (ascii ''present''), duration = None,
    exp_location = None, exp_description = []\<rparr>"
  by (simp add: experience_defs pattern_defs regex_defs text_defs Let_def)

lemma experience_chain_clerk:
  "experience_chain U [ascii ''Clerk'', ascii ''Delta Co'', ascii ''2016 - 2017''] [] =
   \<lparr>job_title = Some (ascii ''Clerk''), company_name = Some (ascii ''Delta Co''),
    employment_type = None, start_date = Some (ascii ''2016''),
    end_date = Some (ascii ''2017''), duration = None,
    exp_location = None, exp_description = []\<rparr>"
  by (simp add: experience_defs pattern_defs regex_defs text_defs Let_def)

lemma current_doc_records:
  "map (parse_experience_item U) (section_items U (soup current_doc) Experience) =
     [\<lparr>job_title = Some (ascii ''Intern''), company_name = Some (ascii ''Beta Inc''),
       employment_type = None, start_date = Some (ascii ''Jun 2018''),
       end_date = Some (ascii ''Aug 2018''), duration = None,
       exp_location = None, exp_description = []\<rparr>,
      \<lparr>job_title = Some (ascii ''Software Engineer''), company_name = Some (ascii ''Acme Corp''),
       employment_type = Some (ascii ''Full-time''), start_date = Some (ascii ''Jan 2020''),
       end_date = Some (ascii ''PRESENT''), duration = Some (ascii ''3 yrs''),
       exp_location = Some (ascii ''Remote''), exp_description = []\<rparr>,
      \<lparr>job_title = Some (ascii ''Consultant''), company_name = Some (ascii ''Gamma LLC''),
       employment_type = None, start_date = Some (ascii ''Mar 2021''),
       end_date = Some (ascii ''present''), duration = None,
       exp_location = None, exp_description = []\<rparr>]"
  by (simp only: parse_experience_items current_doc_items list.map fst_conv snd_conv
      experience_chain_engineer_upper experience_chain_intern experience_chain_consultant)

lemma past_doc_records:
  "map (parse_experience_item U) (section_items U (soup past_doc) Experience) =
     [\<lparr>job_title = Some (ascii ''Intern''), company_name = Some (ascii ''Beta Inc''),
       employment_type = None, start_date = Some (ascii ''Jun 2018''),
       end_date = Some (ascii ''Aug 2018''), duration = None,
       exp_location = None, exp_description = []\<rparr>,
      \<lparr>job_title = Some (ascii ''Clerk''), company_name = Some (ascii ''Delta Co''),
       employment_type = None, start_date = Some (ascii ''2016''),
       end_date = Some (ascii ''2017''), duration = None,
       exp_location = None, exp_description = []\<rparr>]"
  by (simp only: parse_experience_items past_doc_items list.map fst_conv snd_conv
      experience_chain_intern experience_chain_clerk)

lemma current_doc_experience:
  "experience (extract_profile U current_doc) =
     [\<lparr>job_title = Some (ascii ''Intern''), company_name = Some (ascii ''Beta Inc''),
       employment_type = None, start_date = Some (ascii ''Jun 2018''),
       end_date = Some (ascii ''Aug 2018''), duration = None,
       exp_location = None, exp_description = []\<rparr>,
      \<lparr>job_title = Some (ascii ''Software Engineer''), company_name = Some (ascii ''Acme Corp''),
       employment_type = Some (ascii ''Full-time''), start_date = Some (ascii ''Jan 2020''),
       end_date = Some (ascii ''PRESENT''), duration = Some (ascii ''3 yrs''),
       exp_location = Some (ascii ''Remote''), exp_description = []\<rparr>,
      \<lparr>job_title = Some (ascii ''Consultant''), company_name = Some (ascii ''Gamma LLC''),
       employment_type = None, start_date = Some (ascii ''Mar 2021''),
       end_date = Some (ascii ''present''), duration = None,
       exp_location = None, exp_description = []\<rparr>]"
  by (simp add: experience_extract_profile current_doc_records truthy_def ascii_def)

lemma past_doc_experience:
  "experience (extract_profile U past_doc) =
     [\<lparr>job_title = Some (ascii ''Intern''), company_name = Some (ascii ''Beta Inc''),
       employment_type = None, start_date = Some (ascii ''Jun 2018''),
       end_date = Some (ascii ''Aug 2018''), duration = None,
       exp_location = None, exp_description = []\<rparr>,
      \<lparr>job_title = Some (ascii ''Clerk''), company_name = Some (ascii ''Delta Co''),
       employment_type = None, start_date = Some (ascii ''2016''),
       end_date = Some (ascii ''2017''), duration = None,
       exp_location = None, exp_description = []\<rparr>]"
  by (simp add: experience_extract_profile past_doc_records truthy_def ascii_def)

text \<open>
  Claim C7.  In the result, the current company of the basic profile is the company name
  of the first record of the experience list of the result (the accepted records, in
  their order) whose end date is set and, put in lower case, is equal to
  \<open>present\<close>; it is unset when the list has no such record.  The test is written out
  in the statement.  In the first example the first record ended in \<open>Aug 2018\<close>, the
  second has the end date \<open>PRESENT\<close> and the third \<open>present\<close>: the company of the
  second is taken.  In the second example no record has such an end date and the field
  stays unset.
\<close>

theorem current_company_first_present:
  "current_company (basic_profile (extract_profile U c)) =
     (case find (\<lambda>e. case end_date e of None \<Rightarrow> False
                         | Some s \<Rightarrow> lower U s = ascii ''present'')
             (experience (extract_profile U c)) of
        None \<Rightarrow> None
      | Some e \<Rightarrow> company_name e)"
proof -
  let ?doc = "soup c"
  let ?p1 = "extract_basic_profile U ?doc initialize_structure"
  let ?p2 = "extract_experience U ?doc ?p1"
  have e1: "experience ?p1 = []"
    by (simp add: frames init_fields)
  have c1: "current_company (basic_profile ?p1) = None"
    by (simp add: current_company_basic_profile init_fields)
  have b: "basic_profile (extract_profile U c) = basic_profile ?p2"
    by (simp add: extract_profile_def Let_def frames)
  have e: "experience (extract_profile U c) = experience ?p2"
    by (simp add: extract_profile_def Let_def frames)
  have "basic_profile ?p2 = scan_current U (experience ?p2) (basic_profile ?p1)"
    using e1 by (rule basic_after_experience)
  then show ?thesis
    using c1 by (simp add: b e scan_current_find find_is_present split: option.split)
qed

theorem current_company_first_present_witness:
  "map end_date (experience (extract_profile basic_db current_doc)) =
     [Some (ascii ''Aug 2018''), Some (ascii ''PRESENT''), Some (ascii ''present'')] \<and>
   map company_name (experience (extract_profile basic_db current_doc)) =
     [Some (ascii ''Beta Inc''), Some (ascii ''Acme Corp''), Some (ascii ''Gamma LLC'')] \<and>
   current_company (basic_profile (extract_profile basic_db current_doc)) =
     Some (ascii ''Acme Corp'') \<and>
   map end_date (experience (extract_profile basic_db past_doc)) =
     [Some (ascii ''Aug 2018''), Some (ascii ''2017'')] \<and>
   current_company (basic_profile (extract_profile basic_db past_doc)) = None \<and>
   current_company (basic_profile (extract_profile basic_db experience_doc)) =
     Some (ascii ''Acme Corp'')"
proof -
  have low: "lower basic_db (ascii ''Aug 2018'') = ascii ''aug 2018''"
    "lower basic_db (ascii ''PRESENT'') = ascii ''present''"
    "lower basic_db (ascii ''Present'') = ascii ''present''"
    "lower basic_db (ascii ''2017'') = ascii ''2017''"
    by (simp_all add: text_defs)
  have ne: "ascii ''aug 2018'' \<noteq> ascii ''present''" "ascii ''2017'' \<noteq> ascii ''present''"
    by (simp_all add: ascii_def)
  have doc: "experience (extract_profile basic_db experience_doc) =
     [\<lparr>job_title = Some (ascii ''Software Engineer''), company_name = Some (ascii ''Acme Corp''),
       employment_type = Some (ascii ''Full-time''), start_date = Some (ascii ''Jan 2020''),
       end_date = Some (ascii ''Present''), duration = Some (ascii ''3 yrs''),
       exp_location = Some (ascii ''Remote''), exp_description = []\<rparr>,
      \<lparr>job_title = Some (ascii ''Intern''), company_name = Some (ascii ''Beta Inc''),
       employment_type = None, start_date = Some (ascii ''Jun 2018''),
       end_date = Some (ascii ''Aug 2018''), duration = None,
       exp_location = None, exp_description = []\<rparr>]"
    by (simp add: experience_extract_profile experience_doc_records empty_experience_def
        truthy_def ascii_def)
  have c1: "current_company (basic_profile (extract_profile basic_db current_doc)) =
     Some (ascii ''Acme Corp'')"
    using current_company_first_present [where U = basic_db and c = current_doc]
    by (simp add: current_doc_experience low ne)
  have c2: "current_company (basic_profile (extract_profile basic_db past_doc)) = None"
    using current_company_first_present [where U = basic_db and c = past_doc]
    by (simp add: past_doc_experience low ne)
  have c3: "current_company (basic_profile (extract_profile basic_db experience_doc)) =
     Some (ascii ''Acme Corp'')"
    using current_company_first_present [where U = basic_db and c = experience_doc]
    by (simp add: doc low)
  show ?thesis
    by (simp add: c1 c2 c3 current_doc_experience past_doc_experience)
qed

subsection \<open>The title rule of the experience chain\<close>

lemma title_ok_iff:
  "title_ok U text \<longleftrightarrow>
     3 < length text \<and> \<not> str_in (ascii ''experience'') (lower U text) \<and> \<not> str_in [middle_dot] (lower U text)"
  by (simp add: title_ok_def any_in_def)

lemma title_scan_skip:
  "\<forall>p \<in> set pre. \<not> title_ok U p \<Longrightarrow> title_scan U (pre @ rest) = title_scan U rest"
  by (induction pre) simp_all

lemma title_scan_None: "title_scan U texts = None \<longleftrightarrow> find (title_ok U) texts = None"
  by (induction texts) simp_all

lemma title_scan_Some: "title_scan U texts = Some (t, rest) \<Longrightarrow> find (title_ok U) texts = Some t"
  by (induction texts) (simp_all split: if_splits)

lemma job_title_steps:
  "job_title (fst (company_step st)) = job_title (fst st)"
  "job_title (fst (employment_step st)) = job_title (fst st)"
  "job_title (fst (date_step U st)) = job_title (fst st)"
  "job_title (fst (location_step U st)) = job_title (fst st)"
  "job_title (description_step lis st) = job_title (fst st)"
proof -
  show "job_title (fst (company_step st)) = job_title (fst st)"
    by (cases st rule: company_step.cases) simp_all
  show "job_title (fst (employment_step st)) = job_title (fst st)"
    by (cases st) (simp split: prod.split option.split)
  show "job_title (fst (date_step U st)) = job_title (fst st)"
    by (cases st) (simp split: prod.split option.split)
  show "job_title (fst (location_step U st)) = job_title (fst st)"
    by (cases st) (simp split: prod.split option.split)
  show "job_title (description_step lis st) = job_title (fst st)"
    by (cases st) simp
qed

lemma job_title_title_step:
  "job_title (fst (title_step U (r, texts))) =
     (case find (title_ok U) texts of None \<Rightarrow> job_title r | Some t \<Rightarrow> Some t)"
proof (cases "title_scan U texts")
  case None
  then show ?thesis by (simp add: title_scan_None [THEN iffD1])
next
  case (Some p)
  then obtain t rest where "title_scan U texts = Some (t, rest)" by (cases p) simp
  then show ?thesis by (simp add: title_scan_Some)
qed

lemma job_title_chain: "job_title (experience_chain U texts lis) = find (title_ok U) texts"
proof (cases "texts = []")
  case True
  then show ?thesis by (simp add: experience_chain_def empty_experience_def)
next
  case False
  then show ?thesis
    by (simp add: experience_chain_def job_title_steps job_title_title_step empty_experience_def
        del: title_step.simps split: option.split)
qed

lemma chain_skip:
  assumes "\<forall>p \<in> set pre. \<not> title_ok U p" and "title_ok U t"
  shows "experience_chain U (pre @ t # rest) lis = experience_chain U (t # rest) lis"
proof -
  have "title_step U (empty_experience, pre @ t # rest) = title_step U (empty_experience, t # rest)"
    using assms by (simp add: title_scan_skip)
  then show ?thesis by (simp add: experience_chain_def del: title_step.simps)
qed

lemma find_holds: "find P xs = Some x \<Longrightarrow> P x"
  by (induction xs) (simp_all split: if_splits)

text \<open>
  Claim C9.  In the rule chain for experience the job title is the first text that is
  longer than 3 characters and whose lower-case form contains neither \<open>experience\<close> nor
  a middle dot; so a text of 3 characters or fewer is never the job title.  The texts
  before the chosen one play no part in the later rules: the record is the one the
  chain gives without them.
\<close>

theorem experience_title_rule:
  "job_title (experience_chain U texts lis) =
     find (\<lambda>text. 3 < length text \<and> \<not> str_in (ascii ''experience'') (lower U text) \<and>
                  \<not> str_in [middle_dot] (lower U text)) texts \<and>
   (job_title (experience_chain U texts lis) = Some t \<longrightarrow> 3 < length t) \<and>
   ((\<forall>p \<in> set pre. \<not> title_ok U p) \<and> title_ok U t \<longrightarrow>
      job_title (experience_chain U (pre @ t # rest) lis) = Some t \<and>
      experience_chain U (pre @ t # rest) lis = experience_chain U (t # rest) lis)"
proof (intro conjI impI)
  have "title_ok U = (\<lambda>text. 3 < length text \<and> \<not> str_in (ascii ''experience'') (lower U text) \<and>
                  \<not> str_in [middle_dot] (lower U text))"
    by (rule ext) (rule title_ok_iff)
  then show "job_title (experience_chain U texts lis) =
     find (\<lambda>text. 3 < length text \<and> \<not> str_in (ascii ''experience'') (lower U text) \<and>
                  \<not> str_in [middle_dot] (lower U text)) texts"
    using job_title_chain [of U texts lis] by simp
next
  assume "job_title (experience_chain U texts lis) = Some t"
  then have "find (title_ok U) texts = Some t" by (simp add: job_title_chain)
  then have "title_ok U t" by (rule find_holds)
  then show "3 < length t" by (simp add: title_ok_def)
next
  assume a: "(\<forall>p \<in> set pre. \<not> title_ok U p) \<and> title_ok U t"
  then show "experience_chain U (pre @ t # rest) lis = experience_chain U (t # rest) lis"
    by (simp add: chain_skip)
  then show "job_title (experience_chain U (pre @ t # rest) lis) = Some t"
    using a by (simp add: job_title_chain)
qed

theorem experience_title_rule_witness:
  "job_title (experience_chain basic_db
      [ascii ''Dev'', ascii ''Work Experience'', ascii ''Software Engineer'', ascii ''Acme Corp''] []) =
     Some (ascii ''Software Engineer'') \<and>
   3 < length (ascii ''Software Engineer'') \<and>
   \<not> title_ok basic_db (ascii ''Dev'') \<and> \<not> title_ok basic_db (ascii ''Work Experience'') \<and>
   title_ok basic_db (ascii ''Software Engineer'') \<and>
   experience_chain basic_db
      [ascii ''Dev'', ascii ''Work Experience'', ascii ''Software Engineer'', ascii ''Acme Corp''] [] =
   experience_chain basic_db [ascii ''Software Engineer'', ascii ''Acme Corp''] []"
proof -
  have ok: "\<not> title_ok basic_db (ascii ''Dev'')" "\<not> title_ok basic_db (ascii ''Work Experience'')"
    "title_ok basic_db (ascii ''Software Engineer'')"
    by (simp_all add: title_ok_def text_defs)
  have pre: "\<forall>p \<in> set [ascii ''Dev'', ascii ''Work Experience'']. \<not> title_ok basic_db p"
    using ok by simp
  have len: "3 < length (ascii ''Software Engineer'')"
    by (simp add: ascii_def)
  have "job_title (experience_chain basic_db
          ([ascii ''Dev'', ascii ''Work Experience''] @ ascii ''Software Engineer'' # [ascii ''Acme Corp'']) []) =
          Some (ascii ''Software Engineer'') \<and>
        experience_chain basic_db
          ([ascii ''Dev'', ascii ''Work Experience''] @ ascii ''Software Engineer'' # [ascii ''Acme Corp'']) [] =
        experience_chain basic_db (ascii ''Software Engineer'' # [ascii ''Acme Corp'']) []"
    using experience_title_rule [where U = basic_db and lis = "[]"
        and pre = "[ascii ''Dev'', ascii ''Work Experience'']"
        and t = "ascii ''Software Engineer''" and rest = "[ascii ''Acme Corp'']"] pre ok(3)
    by blast
  then have both:
    "job_title (experience_chain basic_db
          [ascii ''Dev'', ascii ''Work Experience'', ascii ''Software Engineer'', ascii ''Acme Corp''] []) =
          Some (ascii ''Software Engineer'') \<and>
     experience_chain basic_db
          [ascii ''Dev'', ascii ''Work Experience'', ascii ''Software Engineer'', ascii ''Acme Corp''] [] =
        experience_chain basic_db [ascii ''Software Engineer'', ascii ''Acme Corp''] []"
    unfolding append.simps .
  have title: "job_title (experience_chain basic_db
          [ascii ''Dev'', ascii ''Work Experience'', ascii ''Software Engineer'', ascii ''Acme Corp''] []) =
          Some (ascii ''Software Engineer'')"
    and same: "experience_chain basic_db
          [ascii ''Dev'', ascii ''Work Experience'', ascii ''Software Engineer'', ascii ''Acme Corp''] [] =
        experience_chain basic_db [ascii ''Software Engineer'', ascii ''Acme Corp''] []"
    using both by (rule conjunct1, rule conjunct2)
  from title same ok len show ?thesis
    by (intro conjI)
qed

subsection \<open>Skills\<close>

lemma skills_loop_ok:
  "list_all (\<lambda>s. 2 < length s \<and> length s < 50 \<and> lower U s \<noteq> ascii ''skills'' \<and> lower U s \<noteq> ascii ''endorsements'') acc \<Longrightarrow>
   list_all (\<lambda>s. 2 < length s \<and> length s < 50 \<and> lower U s \<noteq> ascii ''skills'' \<and> lower U s \<noteq> ascii ''endorsements'') (skills_loop U texts acc)"
  by (induction texts arbitrary: acc) simp_all

lemma no_later_inside_snoc:
  "no_later_inside (acc @ [t]) = (no_later_inside acc \<and> list_all (\<lambda>s. \<not> str_in t s) acc)"
  by (induction acc) auto

lemma skills_loop_no_later:
  "no_later_inside acc \<Longrightarrow> no_later_inside (skills_loop U texts acc)"
  by (induction texts arbitrary: acc) (simp_all add: no_later_inside_snoc list_ex_iff list_all_iff)

lemma no_later_inside_nth:
  "no_later_inside xs \<Longrightarrow> i < j \<Longrightarrow> j < length xs \<Longrightarrow> \<not> str_in (xs ! j) (xs ! i)"
proof (induction xs arbitrary: i j)
  case Nil
  then show ?case by simp
next
  case (Cons x xs)
  show ?case
  proof (cases i)
    case 0
    with Cons.prems obtain j' where j: "j = Suc j'" "j' < length xs" by (cases j) auto
    from Cons.prems(1) have "list_all (\<lambda>t. \<not> str_in t x) xs" by simp
    with j have "\<not> str_in (xs ! j') x" by (simp add: list_all_length)
    with 0 j show ?thesis by simp
  next
    case (Suc i')
    with Cons.prems obtain j' where j: "j = Suc j'" "i' < j'" "j' < length xs" by (cases j) auto
    with Cons.IH[of i' j'] Cons.prems(1) Suc show ?thesis by simp
  qed
qed

lemma skills_loop_python:
  "skills_loop U [ascii ''Python'', ascii ''Python Programming'', ascii ''SQL''] [] =
     [ascii ''Python'', ascii ''Python Programming'', ascii ''SQL'']"
  by (simp add: text_defs)

lemma skills_loop_python_rev:
  "skills_loop U [ascii ''Python Programming'', ascii ''Python'', ascii ''SQL''] [] =
     [ascii ''Python Programming'', ascii ''SQL'']"
  by (simp add: text_defs)

lemma skills_doc_skills:
  "skills (extract_profile U skills_doc) = [ascii ''Python'', ascii ''Python Programming'', ascii ''SQL'']"
  by (simp add: skills_extract_profile skills_doc_def dom_defs text_defs)

lemma skills_doc_rev_skills:
  "skills (extract_profile U skills_doc_rev) = [ascii ''Python Programming'', ascii ''SQL'']"
  by (simp add: skills_extract_profile skills_doc_rev_def dom_defs text_defs)

text \<open>
  Claim C10.  Every string of the skills list of the result is longer than 2 and
  shorter than 50 characters, and its lower-case form is neither \<open>skills\<close> nor
  \<open>endorsements\<close>.
\<close>

theorem skills_within_bounds:
  "s \<in> set (skills (extract_profile U c)) \<Longrightarrow>
   2 < length s \<and> length s < 50 \<and> lower U s \<noteq> ascii ''skills'' \<and> lower U s \<noteq> ascii ''endorsements''"
proof -
  have "list_all (\<lambda>s. 2 < length s \<and> length s < 50 \<and> lower U s \<noteq> ascii ''skills'' \<and> lower U s \<noteq> ascii ''endorsements'')
          (skills (extract_profile U c))"
    by (simp add: skills_extract_profile skills_loop_ok split: option.split)
  then show "s \<in> set (skills (extract_profile U c)) \<Longrightarrow>
   2 < length s \<and> length s < 50 \<and> lower U s \<noteq> ascii ''skills'' \<and> lower U s \<noteq> ascii ''endorsements''"
    by (simp add: list_all_iff)
qed

theorem skills_within_bounds_witness:
  "ascii ''Python'' \<in> set (skills (extract_profile basic_db skills_doc)) \<and>
   2 < length (ascii ''Python'') \<and> length (ascii ''Python'') < 50 \<and>
   lower basic_db (ascii ''Python'') \<noteq> ascii ''skills'' \<and>
   lower basic_db (ascii ''Python'') \<noteq> ascii ''endorsements''"
proof -
  have m: "ascii ''Python'' \<in> set (skills (extract_profile basic_db skills_doc))"
    by (simp add: skills_doc_skills)
  from skills_within_bounds [OF m] m show ?thesis
    by simp
qed

text \<open>
  Claim C2, as the code has it.  The loop drops a text that occurs inside a skill
  accepted before it, and nothing else: in the list that the loop makes of any texts,
  and so in the skills list of the result, no string occurs inside a string that
  stands before it (so no string stands twice), while a string may well contain one
  that stands before it.  The texts \<open>Python\<close>,
  \<open>Python Programming\<close>, \<open>SQL\<close> in this order give all three; with
  \<open>Python Programming\<close> first they give \<open>Python Programming\<close> and \<open>SQL\<close>.
\<close>

theorem skills_no_later_inside_earlier:
  "(i < j \<and> j < length (skills_loop U texts []) \<longrightarrow>
      \<not> str_in (skills_loop U texts [] ! j) (skills_loop U texts [] ! i)) \<and>
   (i < j \<and> j < length (skills (extract_profile U c)) \<longrightarrow>
      \<not> str_in (skills (extract_profile U c) ! j) (skills (extract_profile U c) ! i)) \<and>
   skills_loop U [ascii ''Python'', ascii ''Python Programming'', ascii ''SQL''] [] =
     [ascii ''Python'', ascii ''Python Programming'', ascii ''SQL''] \<and>
   skills_loop U [ascii ''Python Programming'', ascii ''Python'', ascii ''SQL''] [] =
     [ascii ''Python Programming'', ascii ''SQL''] \<and>
   skills (extract_profile U skills_doc) =
     [ascii ''Python'', ascii ''Python Programming'', ascii ''SQL''] \<and>
   skills (extract_profile U skills_doc_rev) = [ascii ''Python Programming'', ascii ''SQL'']"
proof (intro conjI impI)
  have "no_later_inside (skills_loop U texts [])"
    by (simp add: skills_loop_no_later)
  moreover assume "i < j \<and> j < length (skills_loop U texts [])"
  ultimately show "\<not> str_in (skills_loop U texts [] ! j) (skills_loop U texts [] ! i)"
    using no_later_inside_nth by blast
next
  have "no_later_inside (skills (extract_profile U c))"
    by (simp add: skills_extract_profile skills_loop_no_later split: option.split)
  moreover assume "i < j \<and> j < length (skills (extract_profile U c))"
  ultimately show "\<not> str_in (skills (extract_profile U c) ! j) (skills (extract_profile U c) ! i)"
    using no_later_inside_nth by blast
qed (rule skills_loop_python skills_loop_python_rev skills_doc_skills skills_doc_rev_skills)+

theorem skills_no_later_inside_earlier_witness:
  "skills (extract_profile basic_db skills_doc_rev) = [ascii ''Python Programming'', ascii ''SQL''] \<and>
   \<not> str_in (ascii ''SQL'') (ascii ''Python Programming'')"
proof -
  have out: "skills (extract_profile basic_db skills_doc_rev) =
      [ascii ''Python Programming'', ascii ''SQL'']"
    by (rule skills_doc_rev_skills)
  have "(0::nat) < 1 \<and> 1 < length (skills (extract_profile basic_db skills_doc_rev))"
    by (simp add: out)
  with skills_no_later_inside_earlier [where i = 0 and j = 1 and U = basic_db and c = skills_doc_rev]
  have "\<not> str_in (skills (extract_profile basic_db skills_doc_rev) ! 1)
            (skills (extract_profile basic_db skills_doc_rev) ! 0)"
    by blast
  then show ?thesis
    by (simp add: out)
qed

text \<open>
  Claim C2 as it is stated fails: for the texts \<open>Python\<close>, \<open>Python Programming\<close>,
  \<open>SQL\<close> the skills list holds both \<open>Python\<close> and \<open>Python Programming\<close>, and the
  first occurs inside the second.
\<close>

theorem skills_counterexample:
  "skills_loop basic_db [ascii ''Python'', ascii ''Python Programming'', ascii ''SQL''] [] =
     [ascii ''Python'', ascii ''Python Programming'', ascii ''SQL''] \<and>
   ascii ''Python'' \<in> set (skills (extract_profile basic_db skills_doc)) \<and>
   ascii ''Python Programming'' \<in> set (skills (extract_profile basic_db skills_doc)) \<and>
   ascii ''Python'' \<noteq> ascii ''Python Programming'' \<and>
   str_in (ascii ''Python'') (ascii ''Python Programming'')"
proof (intro conjI)
  show "skills_loop basic_db [ascii ''Python'', ascii ''Python Programming'', ascii ''SQL''] [] =
     [ascii ''Python'', ascii ''Python Programming'', ascii ''SQL'']"
    by (rule skills_loop_python)
  show "ascii ''Python'' \<in> set (skills (extract_profile basic_db skills_doc))"
    "ascii ''Python Programming'' \<in> set (skills (extract_profile basic_db skills_doc))"
    by (simp_all add: skills_doc_skills)
  show "ascii ''Python'' \<noteq> ascii ''Python Programming''"
    "str_in (ascii ''Python'') (ascii ''Python Programming'')"
    by (simp_all add: ascii_def)
qed

subsection \<open>The year pair of education\<close>

lemma year_2015_2019: "re_findall U year_pattern (ascii ''2015 - 2019'') = [ascii ''20'', ascii ''20'']"
  by (simp add: year_pattern_def regex_defs text_defs Let_def)

lemma year_2020: "re_findall U year_pattern (ascii ''Graduated 2020'') = [ascii ''20'']"
  by (simp add: year_pattern_def regex_defs text_defs Let_def)

lemma year_none: "re_findall U year_pattern (ascii ''no years here'') = []"
  by (simp add: year_pattern_def regex_defs text_defs Let_def)

lemma education_item_texts:
  "education_texts U education_item = [ascii ''MIT'', ascii ''2015 - 2019'']"
  "education_texts U graduated_item = [ascii ''MIT'', ascii ''Graduated 2020'']"
  by (simp_all add: education_item_def graduated_item_def education_texts_def dom_defs text_defs)

lemmas education_defs = parse_education_item_def education_chain_def empty_education_def is_degree_def is_grade_def is_activities_def take_first_def

text \<open>
  Claim C1 at its own examples.  The pattern has the group \<open>(19|20)\<close>, and \<open>re.findall\<close>
  returns the text of the group, not of the match: for \<open>2015 - 2019\<close> the parser stores
  \<open>20\<close> as start year and \<open>20\<close> as end year, and for \<open>Graduated 2020\<close> it stores \<open>20\<close> as
  end year.
\<close>

theorem year_pair_keeps_century:
  "re_findall basic_db year_pattern (ascii ''2015 - 2019'') = [ascii ''20'', ascii ''20''] \<and>
   start_year (parse_education_item basic_db education_item) = Some (ascii ''20'') \<and>
   end_year (parse_education_item basic_db education_item) = Some (ascii ''20'') \<and>
   start_year (parse_education_item basic_db graduated_item) = None \<and>
   end_year (parse_education_item basic_db graduated_item) = Some (ascii ''20'')"
proof -
  have a: "is_degree (ascii ''2015 - 2019'') = False" "is_degree (ascii ''Graduated 2020'') = False"
    by (simp_all add: is_degree_def text_defs)
  show ?thesis
  by (simp add: parse_education_item_def education_item_texts education_chain_def take_first_def a year_2015_2019 year_2020 empty_education_def Let_def)
qed

subsection \<open>Section locator\<close>

lemma match_keywords_any:
  "match_keywords U text_lower element kws =
     (if list_ex (keyword_matches U text_lower) kws
      then find_parent [''section'', ''div''] [''recursive''] (fst element) else None)"
  by (induction kws) (simp_all split: option.split)

text \<open>
  The two loops of the locator: the result comes from the first matching node for which
  \<open>find_parent\<close> returns an ancestor, and is absent when there is no such node.
\<close>

lemma scan_headers_find:
  "scan_headers U es kws =
     (case find (\<lambda>e. header_hit U kws e \<and>
                     find_parent [''section'', ''div''] [''recursive''] (fst e) \<noteq> None) es of
        None \<Rightarrow> None
      | Some e \<Rightarrow> find_parent [''section'', ''div''] [''recursive''] (fst e))"
  by (induction es) (auto simp: header_hit_def match_keywords_any split: option.split)

lemma find_parent_result:
  "find_parent names keys anc = Some (ps, p) \<Longrightarrow>
     \<exists>pre. anc = pre @ p # ps \<and> named names p \<and> has_attrs keys p \<and>
           list_all (\<lambda>q. \<not> (named names q \<and> has_attrs keys q)) pre"
proof (induction anc)
  case Nil
  then show ?case by simp
next
  case (Cons a anc)
  show ?case
  proof (cases "named names a \<and> has_attrs keys a")
    case True
    with Cons.prems have "a = p" "anc = ps" by simp_all
    with True show ?thesis by (intro exI [of _ "[]"]) simp
  next
    case False
    with Cons.prems have "find_parent names keys anc = Some (ps, p)" by auto
    from Cons.IH [OF this] obtain pre
      where "anc = pre @ p # ps" "named names p" "has_attrs keys p"
        "list_all (\<lambda>q. \<not> (named names q \<and> has_attrs keys q)) pre"
      by blast
    with False show ?thesis by (intro exI [of _ "a # pre"]) simp
  qed
qed

text \<open>Whatever the locator returns is a \<open>section\<close> or \<open>div\<close> with an attribute \<open>recursive\<close>.\<close>

lemma find_section_by_header_result:
  assumes "find_section_by_header U doc kws = Some (ps, p)"
  shows "named [''section'', ''div''] p \<and> has_attrs [''recursive''] p"
proof -
  let ?P = "\<lambda>e. header_hit U kws e \<and>
                  find_parent [''section'', ''div''] [''recursive''] (fst e) \<noteq> None"
  let ?es = "find_all [''h2'', ''h3'', ''h4'', ''span'', ''div''] doc"
  from assms obtain e where "find_parent [''section'', ''div''] [''recursive''] (fst e) = Some (ps, p)"
    by (auto simp: find_section_by_header_def scan_headers_find split: option.splits)
  from find_parent_result [OF this] show ?thesis by blast
qed

text \<open>
  Claim C4 at its own example.  In \<open>education_doc\<close> the only node that matches
  \<open>education\<close> is the \<open>h2\<close>, and it stands in a \<open>div\<close>.  The locator as the specification
  words it returns this \<open>div\<close>.  The locator of the source returns nothing, since the
  \<open>div\<close> has no attribute named \<open>recursive\<close>; with such an attribute on the \<open>div\<close> it
  returns the \<open>div\<close>.
\<close>

theorem section_locator_asks_for_attribute:
  "first_match_section basic_db (soup education_doc) [ascii ''education''] =
     Some ([snd (soup education_doc)], hd education_doc) \<and>
   find_section_by_header basic_db (soup education_doc) [ascii ''education''] = None \<and>
   find_section_by_header basic_db (soup education_doc_marked) [ascii ''education''] =
     Some ([snd (soup education_doc_marked)], hd education_doc_marked)"
  by (simp add: first_match_section_def header_hit_def education_doc_def education_doc_marked_def
      dom_defs text_defs)

subsection \<open>The date grammar\<close>

lemma rx_first_Seq:
  "rx_first U r1 s = Some s1 \<Longrightarrow> rx_first U r2 s1 = Some t \<Longrightarrow> rx_first U (Seq r1 r2) s = Some t"
  by (auto simp: rx_first_def split: list.splits)

lemma rx_first_Alt1: "rx_first U r1 s = Some t \<Longrightarrow> rx_first U (Alt r1 r2) s = Some t"
  by (auto simp: rx_first_def split: list.splits)

lemma rx_first_Alt2: "rx U r1 s = [] \<Longrightarrow> rx_first U (Alt r1 r2) s = rx_first U r2 s"
  by (simp add: rx_first_def)

lemma rx_first_Grp:
  "rx_first U r (b, xs @ rest, g) = Some (b', rest, g') \<Longrightarrow>
   rx_first U (Grp n r) (b, xs @ rest, g) = Some (b', rest, (n, xs) # g')"
  by (auto simp: rx_first_def split: list.splits)

lemma rx_first_Chr: "k U x \<Longrightarrow> rx_first U (Chr k) (b, x # xs, g) = Some (x # b, xs, g)"
  by (simp add: rx_first_def)

lemma takeWhile_run:
  "list_all P xs \<Longrightarrow> rest = [] \<or> \<not> P (hd rest) \<Longrightarrow> takeWhile P (xs @ rest) = xs"
  by (cases rest) (auto simp: list_all_iff)

lemma rx_first_Rep_greedy:
  assumes "list_all (k U) xs" and "rest = [] \<or> \<not> k U (hd rest)" and "lo \<le> length xs"
  shows "rx_first U (Rep k True lo None) (b, xs @ rest, g) = Some (rev xs @ b, rest, g)"
proof -
  have run: "takeWhile (k U) (xs @ rest) = xs"
    using assms(1,2) by (rule takeWhile_run)
  have "rev [lo..<Suc (length xs)] = length xs # rev [lo..<length xs]"
    using assms(3) by simp
  then show ?thesis
    by (simp add: rx_first_def run Let_def)
qed

lemma rx_first_Rep_exact:
  assumes "list_all (k U) xs"
  shows "rx_first U (Rep k True (length xs) (Some (length xs))) (b, xs @ rest, g) =
           Some (rev xs @ b, rest, g)"
proof -
  have "takeWhile (k U) (xs @ rest) = xs @ takeWhile (k U) rest"
    using assms by (simp add: list_all_iff)
  then have "min (length xs) (length (takeWhile (k U) (xs @ rest))) = length xs"
    by simp
  then show ?thesis
    by (simp add: rx_first_def Let_def)
qed

lemma rx_Rep_no_start:
  "a = [] \<or> \<not> k U (hd a) \<Longrightarrow> 0 < lo \<Longrightarrow> rx U (Rep k greedy lo hi) (b, a, g) = []"
  by (cases a) (auto simp: Let_def split: option.split)

lemma rx_Seq_nil: "rx U r1 s = [] \<Longrightarrow> rx U (Seq r1 r2) s = []"
  by simp

lemma letter_classes:
  "ascii_letter c \<Longrightarrow> AlphaI U c" "ascii_letter c \<Longrightarrow> \<not> Space U c" "ascii_letter c \<Longrightarrow> \<not> Digit U c"
  by (auto simp: ascii_letter_def AlphaI_def Space_def Digit_def fold_case_def is_space_def is_decimal_def tabled_def)

lemma digit_classes:
  "ascii_digit c \<Longrightarrow> Digit U c" "ascii_digit c \<Longrightarrow> \<not> Space U c" "ascii_digit c \<Longrightarrow> \<not> AlphaI U c"
  by (auto simp: ascii_digit_def AlphaI_def Space_def Digit_def fold_case_def is_space_def is_decimal_def tabled_def)

lemma space_classes:
  "is_space c \<Longrightarrow> Space U c" "is_space c \<Longrightarrow> \<not> AlphaI U c"
  by (auto simp: AlphaI_def Space_def fold_case_def is_space_def)

lemma dash_classes:
  "dash = 45 \<or> dash = en_dash \<Longrightarrow> Union (Lit en_dash) (Lit 45) U dash"
  "dash = 45 \<or> dash = en_dash \<Longrightarrow> \<not> Space U dash"
  by (auto simp: Union_def Lit_def Space_def is_space_def en_dash_def)

lemma space_32: "Space U 32" "\<not> AlphaI U 32"
  by (simp_all add: Space_def is_space_def AlphaI_def fold_case_def)

lemma letters_alpha: "list_all ascii_letter w \<Longrightarrow> list_all (AlphaI U) w"
  by (simp add: list_all_iff letter_classes)

lemma digits_digit: "list_all ascii_digit y \<Longrightarrow> list_all (Digit U) y"
  by (simp add: list_all_iff digit_classes)

lemma spaces_space: "list_all is_space ws \<Longrightarrow> list_all (Space U) ws"
  by (simp add: list_all_iff space_classes)

lemma month_year_first:
  assumes "word_text w" and "year_text y"
  shows "rx_first U month_year (b, (w @ [32] @ y) @ rest, g) = Some (rev (w @ [32] @ y) @ b, rest, g)"
proof -
  from assms(2) obtain d ds where y: "y = d # ds" "ascii_digit d" "list_all ascii_digit y" "length y = 4"
    by (cases y) (auto simp: year_text_def)
  from assms(1) have w: "list_all (AlphaI U) w" "1 \<le> length w"
    by (simp_all add: word_text_def letters_alpha Suc_le_eq)
  have "rx_first U (Rep AlphaI True 1 None) (b, w @ (32 # y @ rest), g) = Some (rev w @ b, 32 # y @ rest, g)"
    using w by (intro rx_first_Rep_greedy) (simp_all add: space_32)
  then have 1: "rx_first U (Rep AlphaI True 1 None) (b, (w @ [32] @ y) @ rest, g) = Some (rev w @ b, 32 # y @ rest, g)"
    by simp
  have "rx_first U (Rep Space True 1 None) (rev w @ b, [32] @ (y @ rest), g) = Some (rev [32] @ rev w @ b, y @ rest, g)"
    using y(1,2) by (intro rx_first_Rep_greedy) (simp_all add: space_32 digit_classes)
  then have 2: "rx_first U (Rep Space True 1 None) (rev w @ b, 32 # y @ rest, g) = Some (32 # rev w @ b, y @ rest, g)"
    by simp
  have "rx_first U (Rep Digit True (length y) (Some (length y))) (32 # rev w @ b, y @ rest, g) = Some (rev y @ 32 # rev w @ b, rest, g)"
    using y(3) by (intro rx_first_Rep_exact) (simp add: digits_digit)
  then have 3: "rx_first U (Rep Digit True 4 (Some 4)) (32 # rev w @ b, y @ rest, g) = Some (rev (w @ [32] @ y) @ b, rest, g)"
    using y(4) by simp
  show ?thesis
    unfolding month_year_def seqs.simps
    by (rule rx_first_Seq [OF 1]) (rule rx_first_Seq [OF 2 3])
qed

lemma year4_first:
  assumes "year_text y"
  shows "rx_first U year4 (b, y @ rest, g) = Some (rev y @ b, rest, g)"
proof -
  from assms have y: "list_all (Digit U) y" "length y = 4"
    by (simp_all add: year_text_def digits_digit)
  have "rx_first U (Rep Digit True (length y) (Some (length y))) (b, y @ rest, g) = Some (rev y @ b, rest, g)"
    using y(1) by (rule rx_first_Rep_exact)
  then show ?thesis
    using y(2) by (simp add: year4_def)
qed

lemma month_year_no_letter:
  "a = [] \<or> \<not> AlphaI U (hd a) \<Longrightarrow> rx U month_year (b, a, g) = []"
  unfolding month_year_def seqs.simps
  by (rule rx_Seq_nil) (simp add: rx_Rep_no_start del: rx.simps)

lemma hd_append_ne: "xs \<noteq> [] \<Longrightarrow> hd (xs @ ys) = hd xs"
  by simp

lemma start_first:
  assumes "word_text w" and "year_text y" and "sd = w @ [32] @ y \<or> sd = y"
  shows "rx_first U (Grp 1 (Alt month_year year4)) (b, sd @ rest, g) =
           Some (rev sd @ b, rest, (1, sd) # g)"
proof -
  have "rx_first U (Alt month_year year4) (b, sd @ rest, g) = Some (rev sd @ b, rest, g)"
    using assms(3)
  proof
    assume sd: "sd = w @ [32] @ y"
    show ?thesis
      unfolding sd by (intro rx_first_Alt1 month_year_first assms)
  next
    assume sd: "sd = y"
    from assms(2) obtain d ds where y: "y = d # ds" "ascii_digit d"
      by (cases y) (auto simp: year_text_def)
    have "rx U month_year (b, y @ rest, g) = []"
      using y by (intro month_year_no_letter) (simp add: digit_classes)
    then show ?thesis
      unfolding sd by (simp add: rx_first_Alt2 year4_first assms(2))
  qed
  then show ?thesis by (rule rx_first_Grp)
qed

lemma rx_Rep_then_class_nil:
  assumes "list_all (\<lambda>c. \<not> k2 U c) a" and "0 < lo2"
  shows "rx U (Seq (Rep k gr lo hi) (Seq (Rep k2 gr2 lo2 hi2) r)) (b, a, g) = []"
proof -
  have "rx U (Seq (Rep k2 gr2 lo2 hi2) r) (rev (take n a) @ b, drop n a, g) = []" for n
  proof -
    have "drop n a = [] \<or> \<not> k2 U (hd (drop n a))"
    proof (cases "drop n a = []")
      case True
      then show ?thesis by simp
    next
      case False
      then have "hd (drop n a) \<in> set a"
        by (metis hd_in_set in_set_dropD)
      with assms(1) show ?thesis by (simp add: list_all_iff)
    qed
    then have "rx U (Rep k2 gr2 lo2 hi2) (rev (take n a) @ b, drop n a, g) = []"
      using assms(2) by (rule rx_Rep_no_start)
    then show ?thesis by (rule rx_Seq_nil)
  qed
  note inner = this
  have "\<exists>n. s = (rev (take n a) @ b, drop n a, g)" if "s \<in> set (rx U (Rep k gr lo hi) (b, a, g))" for s
    using that by (auto simp: Let_def)
  then have "rx U (Seq (Rep k2 gr2 lo2 hi2) r) s = []" if "s \<in> set (rx U (Rep k gr lo hi) (b, a, g))" for s
    using that inner by blast
  then have "concat (map (rx U (Seq (Rep k2 gr2 lo2 hi2) r)) (rx U (Rep k gr lo hi) (b, a, g))) = []"
    by simp
  then show ?thesis
    by (simp only: rx.simps(3))
qed

lemma letter_fold: "ascii_letter c \<Longrightarrow> fold_case c = lower_char c"
  by (auto simp: ascii_letter_def fold_case_def lower_char_def)

lemma present_first:
  assumes "present_text p"
  shows "rx_first U (litsI ''Present'') (b, p, g) = Some (rev p @ b, [], g)"
proof -
  from assms obtain c0 c1 c2 c3 c4 c5 c6
    where p: "p = [c0, c1, c2, c3, c4, c5, c6]"
      and l: "lower_char c0 = 112" "lower_char c1 = 114" "lower_char c2 = 101"
        "lower_char c3 = 115" "lower_char c4 = 101" "lower_char c5 = 110" "lower_char c6 = 116"
    by (auto simp: present_text_def ascii_def map_eq_Cons_conv)
  from assms p have "ascii_letter c0" "ascii_letter c1" "ascii_letter c2" "ascii_letter c3"
    "ascii_letter c4" "ascii_letter c5" "ascii_letter c6"
    by (simp_all add: present_text_def)
  then have f: "fold_case c0 = 112" "fold_case c1 = 114" "fold_case c2 = 101"
        "fold_case c3 = 115" "fold_case c4 = 101" "fold_case c5 = 110" "fold_case c6 = 116"
    using l by (simp_all add: letter_fold)
  have pat: "fold_case 80 = 112" "fold_case 114 = 114" "fold_case 101 = 101" "fold_case 115 = 115"
    "fold_case 110 = 110" "fold_case 116 = 116"
    by (simp_all add: fold_case_def)
  show ?thesis
    by (simp add: p rx_first_def litsI_def LitI_def f pat)
qed

lemma end_first:
  assumes "word_text w" and "year_text y" and "present_text p"
    and "ed = w @ [32] @ y \<or> ed = y \<or> ed = p"
  shows "rx_first U (Grp 2 (alts [month_year, year4, litsI ''Present''])) (b, ed, g) =
           Some (rev ed @ b, [], (2, ed) # g)"
proof -
  have "rx_first U (Alt month_year (Alt year4 (litsI ''Present''))) (b, ed @ [], g) =
          Some (rev ed @ b, [], g)"
    using assms(4)
  proof (elim disjE)
    assume ed: "ed = w @ [32] @ y"
    show ?thesis
      unfolding ed by (intro rx_first_Alt1 month_year_first assms)
  next
    assume ed: "ed = y"
    from assms(2) obtain d ds where y: "y = d # ds" "ascii_digit d"
      by (cases y) (auto simp: year_text_def)
    have "rx U month_year (b, y @ [], g) = []"
      using y by (intro month_year_no_letter) (simp add: digit_classes)
    moreover have "rx_first U (Alt year4 (litsI ''Present'')) (b, y @ [], g) = Some (rev y @ b, [], g)"
      by (intro rx_first_Alt1 year4_first assms)
    ultimately show ?thesis
      unfolding ed by (simp add: rx_first_Alt2)
  next
    assume ed: "ed = p"
    from assms(3) have letters: "list_all ascii_letter p" and ne: "p \<noteq> []"
      by (auto simp: present_text_def ascii_def)
    have "list_all (\<lambda>c. \<not> Space U c) p"
      using letters by (simp add: list_all_iff letter_classes)
    then have 1: "rx U month_year (b, p, g) = []"
      unfolding month_year_def seqs.simps by (rule rx_Rep_then_class_nil) simp
    from ne letters have "\<not> Digit U (hd p)"
      by (cases p) (simp_all add: letter_classes)
    then have 2: "rx U year4 (b, p, g) = []"
      unfolding year4_def by (intro rx_Rep_no_start) simp_all
    show ?thesis
      unfolding ed using 1 2 by (simp add: rx_first_Alt2 present_first assms(3))
  qed
  then have "rx_first U (Grp 2 (Alt month_year (Alt year4 (litsI ''Present'')))) (b, ed @ [], g) =
          Some (rev ed @ b, [], (2, ed) # g)"
    by (rule rx_first_Grp)
  then show ?thesis by simp
qed

lemma search_from_first: "rx_first U r (b, a, []) = Some t \<Longrightarrow> search_from U r b a = Some t"
  by (cases a) (auto simp: rx_first_def split: list.splits)

lemma search_from_Chr_absent:
  "x \<notin> set a \<Longrightarrow> search_from U (Seq (Chr (Lit x)) r) b a = None"
  by (induction a arbitrary: b) (simp_all add: Lit_def)

lemma dropWhile_keep: "s \<noteq> [] \<Longrightarrow> \<not> P (hd s) \<Longrightarrow> dropWhile P s = s"
  by (cases s) simp_all

lemma strip_id:
  assumes "s \<noteq> []" and "\<not> is_space (hd s)" and "\<not> is_space (last s)"
  shows "strip s = s"
proof -
  have a: "dropWhile is_space s = s"
    using assms(1,2) by (rule dropWhile_keep)
  have "rev s \<noteq> []" "\<not> is_space (hd (rev s))"
    using assms(1,3) by (simp_all add: hd_rev)
  then have b: "dropWhile is_space (rev s) = rev s"
    by (rule dropWhile_keep)
  show ?thesis
    by (simp add: strip_def a b)
qed

lemma letter_plain: "ascii_letter c \<Longrightarrow> plain c"
  by (auto simp: plain_def ascii_letter_def is_space_def middle_dot_def)

lemma digit_plain: "ascii_digit c \<Longrightarrow> plain c"
  by (auto simp: plain_def ascii_digit_def is_space_def middle_dot_def)

lemma space_plain: "is_space c \<Longrightarrow> c \<noteq> middle_dot"
  by (auto simp: is_space_def middle_dot_def)

lemma plain_list:
  assumes "s \<noteq> []" and "list_all plain s"
  shows "\<not> is_space (hd s)" "\<not> is_space (last s)" "middle_dot \<notin> set s"
proof -
  from assms have "plain (hd s)" "plain (last s)"
    by (simp_all add: list_all_iff)
  then show "\<not> is_space (hd s)" "\<not> is_space (last s)"
    by (simp_all add: plain_def)
  from assms(2) show "middle_dot \<notin> set s"
    by (auto simp: list_all_iff plain_def)
qed

lemma word_text_plain: "word_text w \<Longrightarrow> w \<noteq> [] \<and> list_all plain w"
  by (simp add: word_text_def list_all_iff letter_plain)

lemma year_text_plain: "year_text y \<Longrightarrow> y \<noteq> [] \<and> list_all plain y"
  by (auto simp: year_text_def list_all_iff digit_plain)

lemma present_text_plain: "present_text p \<Longrightarrow> p \<noteq> [] \<and> list_all plain p"
  by (auto simp: present_text_def ascii_def list_all_iff letter_plain)

lemma month_year_plain:
  assumes "word_text w" and "year_text y"
  shows "w @ [32] @ y \<noteq> [] \<and> \<not> is_space (hd (w @ [32] @ y)) \<and>
         \<not> is_space (last (w @ [32] @ y)) \<and> middle_dot \<notin> set (w @ [32] @ y)"
proof -
  note wf = word_text_plain [OF assms(1)] and yf = year_text_plain [OF assms(2)]
  from wf have "\<not> is_space (hd w)" "middle_dot \<notin> set w" "w \<noteq> []"
    by (simp_all add: plain_list)
  moreover from yf have "\<not> is_space (last y)" "middle_dot \<notin> set y" "y \<noteq> []"
    by (simp_all add: plain_list)
  ultimately show ?thesis
    by (simp add: middle_dot_def)
qed

lemma form_facts:
  assumes "word_text w" and "year_text y" and "present_text p"
    and "ed = w @ [32] @ y \<or> ed = y \<or> ed = p"
  shows "ed \<noteq> []" "\<not> is_space (hd ed)" "\<not> is_space (last ed)" "middle_dot \<notin> set ed"
proof -
  have "ed \<noteq> [] \<and> \<not> is_space (hd ed) \<and> \<not> is_space (last ed) \<and> middle_dot \<notin> set ed"
    using assms(4)
  proof (elim disjE)
    assume "ed = w @ [32] @ y"
    then show ?thesis using month_year_plain [OF assms(1,2)] by simp
  next
    assume "ed = y"
    then show ?thesis using year_text_plain [OF assms(2)] by (simp add: plain_list)
  next
    assume "ed = p"
    then show ?thesis using present_text_plain [OF assms(3)] by (simp add: plain_list)
  qed
  then show "ed \<noteq> []" "\<not> is_space (hd ed)" "\<not> is_space (last ed)" "middle_dot \<notin> set ed"
    by simp_all
qed

lemma date_first:
  assumes w1: "word_text w1" and y1: "year_text y1" and w2: "word_text w2" and y2: "year_text y2"
    and p: "present_text p" and dash: "dash = 45 \<or> dash = en_dash"
    and ws1: "list_all is_space ws1" and ws2: "list_all is_space ws2"
    and sd: "sd = w1 @ [32] @ y1 \<or> sd = y1"
    and ed: "ed = w2 @ [32] @ y2 \<or> ed = y2 \<or> ed = p"
  shows "rx_first U date_pattern (b, sd @ ws1 @ [dash] @ ws2 @ ed, []) =
           Some (rev (sd @ ws1 @ [dash] @ ws2 @ ed) @ b, [], [(2, ed), (1, sd)])"
proof -
  note edf = form_facts [OF w2 y2 p ed]
  have 1: "rx_first U (Grp 1 (Alt month_year year4)) (b, sd @ (ws1 @ [dash] @ ws2 @ ed), []) =
             Some (rev sd @ b, ws1 @ [dash] @ ws2 @ ed, [(1, sd)])"
    using w1 y1 sd by (rule start_first)
  have "rx_first U (Rep Space True 0 None) (rev sd @ b, ws1 @ (dash # ws2 @ ed), [(1, sd)]) =
             Some (rev ws1 @ rev sd @ b, dash # ws2 @ ed, [(1, sd)])"
    using ws1 dash by (intro rx_first_Rep_greedy) (simp_all add: spaces_space dash_classes)
  then have 2: "rx_first U (Rep Space True 0 None) (rev sd @ b, ws1 @ [dash] @ ws2 @ ed, [(1, sd)]) =
             Some (rev ws1 @ rev sd @ b, dash # ws2 @ ed, [(1, sd)])"
    by simp
  have 3: "rx_first U (Chr (Union (Lit en_dash) (Lit 45))) (rev ws1 @ rev sd @ b, dash # ws2 @ ed, [(1, sd)]) =
             Some (dash # rev ws1 @ rev sd @ b, ws2 @ ed, [(1, sd)])"
    using dash by (intro rx_first_Chr) (simp add: dash_classes)
  have 4: "rx_first U (Rep Space True 0 None) (dash # rev ws1 @ rev sd @ b, ws2 @ ed, [(1, sd)]) =
             Some (rev ws2 @ dash # rev ws1 @ rev sd @ b, ed, [(1, sd)])"
    using ws2 edf(1,2) by (intro rx_first_Rep_greedy) (simp_all add: spaces_space Space_def)
  have 5: "rx_first U (Grp 2 (alts [month_year, year4, litsI ''Present'']))
             (rev ws2 @ dash # rev ws1 @ rev sd @ b, ed, [(1, sd)]) =
             Some (rev ed @ rev ws2 @ dash # rev ws1 @ rev sd @ b, [], [(2, ed), (1, sd)])"
    using w2 y2 p ed by (rule end_first)
  have "rx_first U date_pattern (b, sd @ ws1 @ [dash] @ ws2 @ ed, []) =
          Some (rev ed @ rev ws2 @ dash # rev ws1 @ rev sd @ b, [], [(2, ed), (1, sd)])"
    unfolding date_pattern_def seqs.simps
    using 1 by (rule rx_first_Seq) (intro rx_first_Seq [OF 2] rx_first_Seq [OF 3] rx_first_Seq [OF 4] 5)
  then show ?thesis by simp
qed

lemma date_range_forms:
  assumes w1: "word_text w1" and y1: "year_text y1" and w2: "word_text w2" and y2: "year_text y2"
    and p: "present_text p" and dash: "dash = 45 \<or> dash = en_dash"
    and ws1: "list_all is_space ws1" and ws2: "list_all is_space ws2"
    and sd: "sd = w1 @ [32] @ y1 \<or> sd = y1"
    and ed: "ed = w2 @ [32] @ y2 \<or> ed = y2 \<or> ed = p"
  shows "extract_date_range U (sd @ ws1 @ [dash] @ ws2 @ ed) = (Some sd, Some ed, None)"
proof -
  let ?text = "sd @ ws1 @ [dash] @ ws2 @ ed"
  have "sd = w1 @ [32] @ y1 \<or> sd = y1 \<or> sd = p"
    using sd by blast
  note sdf = form_facts [OF w1 y1 p this]
  note edf = form_facts [OF w2 y2 p ed]
  have "rx_first U date_pattern ([], ?text, []) = Some (rev ?text @ [], [], [(2, ed), (1, sd)])"
    using assms by (rule date_first)
  then have m: "re_search U date_pattern ?text = Some (rev ?text @ [], [], [(2, ed), (1, sd)])"
    unfolding re_search_def by (rule search_from_first)
  have "middle_dot \<notin> set ws1" "middle_dot \<notin> set ws2"
    using ws1 ws2 space_plain by (auto simp: list_all_iff)
  moreover have "dash \<noteq> middle_dot"
    using dash by (auto simp: middle_dot_def en_dash_def)
  ultimately have "middle_dot \<notin> set ?text"
    using sdf(4) edf(4) by simp
  then have d: "re_search U duration_pattern ?text = None"
    unfolding re_search_def duration_pattern_def seqs.simps by (rule search_from_Chr_absent)
  have s: "strip sd = sd" "strip ed = ed"
    using sdf edf by (simp_all add: strip_id)
  show ?thesis
    using m d by (simp add: extract_date_range_def group_def s)
qed

lemma upt_split: "lo \<le> n \<Longrightarrow> n < hi \<Longrightarrow> [lo..<hi] = [lo..<n] @ n # [Suc n..<hi]"
proof -
  assume a: "lo \<le> n" "n < hi"
  then have "[lo..<hi] = [lo..<n] @ [n..<hi]"
    using upt_add_eq_append [of lo n "hi - n"] by simp
  also have "[n..<hi] = n # [Suc n..<hi]"
    using a by (simp add: upt_conv_Cons)
  finally show ?thesis .
qed

lemma concat_first:
  assumes "\<forall>x \<in> set xs. f x = []" and "f y = t # ts"
  shows "\<exists>m. concat (map f (xs @ y # ys)) = t # m"
proof -
  have "concat (map f xs) = []"
    using assms(1) by simp
  then have "concat (map f (xs @ y # ys)) = t # (ts @ concat (map f ys))"
    by (simp add: assms(2))
  then show ?thesis ..
qed

lemma rx_Rep_states:
  assumes "s \<in> set (rx U (Rep k gr lo hi) (b, a, g))"
  shows "\<exists>n \<le> length (takeWhile (k U) a). s = (rev (take n a) @ b, drop n a, g)"
proof -
  define run where "run = length (takeWhile (k U) a)"
  define top where "top = (case hi of None \<Rightarrow> run | Some h \<Rightarrow> min h run)"
  have top: "top \<le> run"
    by (simp add: top_def split: option.split)
  have "set (rx U (Rep k gr lo hi) (b, a, g)) =
          (\<lambda>n. (rev (take n a) @ b, drop n a, g)) ` set [lo..<Suc top]"
    by (cases gr) (simp_all only: rx.simps Let_def run_def top_def set_map set_rev if_True if_False)
  with assms obtain n where "n \<in> set [lo..<Suc top]" "s = (rev (take n a) @ b, drop n a, g)"
    by blast
  then have "n < Suc top" "s = (rev (take n a) @ b, drop n a, g)"
    by auto
  with top show ?thesis
    unfolding run_def by (intro exI [of _ n]) simp
qed

lemma tail_fails:
  assumes "e \<noteq> []" and "middle_dot \<notin> set e" and "10 \<notin> set e" and "\<not> is_space (last e)"
  shows "rx U duration_tail (b, e @ rest, g) = []"
proof -
  have run: "takeWhile is_space (e @ rest) = takeWhile is_space e"
    using assms(1,4) by (intro takeWhile_append1 [of "last e"]) simp_all
  have short: "length (takeWhile is_space e) < length e"
  proof (rule ccontr)
    assume "\<not> length (takeWhile is_space e) < length e"
    then have "length (takeWhile is_space e) = length e"
      using length_takeWhile_le [of is_space e] by simp
    then have "takeWhile is_space e = e"
      by (metis takeWhile_eq_take take_all order_refl)
    then have "\<forall>x \<in> set e. is_space x"
      by (metis set_takeWhileD)
    with assms(1,4) show False by simp
  qed
  have chr: "rx U (Chr (Lit middle_dot)) (rev (take n (e @ rest)) @ b, drop n (e @ rest), g) = []"
    if "n \<le> length (takeWhile is_space e)" for n
  proof -
    from that short have n: "n < length e" by simp
    then have "drop n (e @ rest) = drop n e @ rest" "drop n e \<noteq> []"
      by simp_all
    moreover from this(2) have "hd (drop n e) \<in> set e"
      by (metis hd_in_set in_set_dropD)
    ultimately obtain x xs where "drop n (e @ rest) = x # xs" "x \<in> set e"
      by (cases "drop n e") auto
    with assms(2) show ?thesis
      by (auto simp: Lit_def)
  qed
  have "\<exists>n \<le> length (takeWhile is_space e).
          s = (rev (take n (e @ rest)) @ b, drop n (e @ rest), g)"
    if "s \<in> set (rx U (Rep Space True 0 None) (b, e @ rest, g))" for s
  proof -
    have "takeWhile (Space U) (e @ rest) = takeWhile is_space e"
      using run by (simp add: Space_def [abs_def])
    with rx_Rep_states [OF that] show ?thesis by simp
  qed
  then have "rx U (Chr (Lit middle_dot)) s = []"
    if "s \<in> set (rx U (Rep Space True 0 None) (b, e @ rest, g))" for s
    using that chr by blast
  then have "concat (map (rx U (Chr (Lit middle_dot))) (rx U (Rep Space True 0 None) (b, e @ rest, g))) = []"
    by simp
  then have "rx U (Seq (Rep Space True 0 None) (Chr (Lit middle_dot))) (b, e @ rest, g) = []"
    by (simp only: rx.simps(3))
  moreover have "rx U Eol (b, e @ rest, g) = []"
  proof -
    from assms(1,3) have "hd e \<noteq> 10"
      by (metis hd_in_set)
    with assms(1) have "e @ rest \<noteq> []" "hd (e @ rest) \<noteq> 10"
      by simp_all
    then show ?thesis
      by (cases "e @ rest") auto
  qed
  ultimately show ?thesis
    by (simp add: duration_tail_def)
qed

lemma tail_dot:
  assumes "list_all is_space ws"
  shows "rx_first U duration_tail (b, ws @ middle_dot # post, g) =
           Some (middle_dot # rev ws @ b, post, g)"
proof -
  have "rx_first U (Rep Space True 0 None) (b, ws @ middle_dot # post, g) =
          Some (rev ws @ b, middle_dot # post, g)"
    using assms by (intro rx_first_Rep_greedy) (simp_all add: spaces_space Space_def is_space_def middle_dot_def)
  moreover have "rx_first U (Chr (Lit middle_dot)) (rev ws @ b, middle_dot # post, g) =
          Some (middle_dot # rev ws @ b, post, g)"
    by (intro rx_first_Chr) (simp add: Lit_def)
  ultimately show ?thesis
    unfolding duration_tail_def by (intro rx_first_Alt1 rx_first_Seq)
qed

lemma tail_end: "rx_first U duration_tail (b, [], g) = Some (b, [], g)"
  by (simp add: duration_tail_def rx_first_def Let_def)

lemma search_from_skip:
  "x \<notin> set pre \<Longrightarrow>
   search_from U (Seq (Chr (Lit x)) r) b (pre @ rest) =
     search_from U (Seq (Chr (Lit x)) r) (rev pre @ b) rest"
proof (induction pre arbitrary: b)
  case Nil
  then show ?case by simp
next
  case (Cons c pre)
  then have "c \<noteq> x" "x \<notin> set pre" by auto
  then show ?case
    using Cons.IH [of "c # b"] by (simp add: Lit_def)
qed

lemma lazy_capture:
  assumes d: "duration_text d"
    and tail: "rx_first U duration_tail (rev d @ b, rest, (1, d) # g) = Some t"
  shows "rx_first U (Seq (Grp 1 (Rep Dot False 1 None)) duration_tail) (b, d @ rest, g) = Some t"
proof -
  define a where "a = d @ rest"
  define run where "run = length (takeWhile (Dot U) a)"
  define f where "f n = (rev (take n a) @ b, drop n a, (1, take n a) # g)" for n
  from d have dn: "d \<noteq> []" and nodot: "middle_dot \<notin> set d" and nonl: "10 \<notin> set d"
    and lastd: "\<not> is_space (last d)"
    by (auto simp: duration_text_def list_all_iff)
  have "takeWhile (Dot U) a = d @ takeWhile (Dot U) rest"
    unfolding a_def using nonl by (intro takeWhile_append2) (auto simp: Dot_def)
  then have run_d: "length d \<le> run"
    by (simp add: run_def)
  have run_a: "run \<le> length a"
    unfolding run_def by (rule length_takeWhile_le)
  have grp: "rx U (Grp 1 (Rep Dot False 1 None)) (b, a, g) = map f [1..<Suc run]"
  proof -
    have "(1, take (length a - length (drop n a)) a) = (1::nat, take n a)"
      if "n \<in> set [1..<Suc run]" for n
    proof -
      from that run_a have "n \<le> length a" by auto
      then show ?thesis by simp
    qed
    then have "map (\<lambda>n. (rev (take n a) @ b, drop n a, (1::nat, take (length a - length (drop n a)) a) # g))
                 [1..<Suc run] = map f [1..<Suc run]"
      unfolding f_def by (intro map_cong) simp_all
    then show ?thesis
      by (simp add: Let_def run_def comp_def del: upt_Suc)
  qed
  have split: "[1..<Suc run] = [1..<length d] @ length d # [Suc (length d)..<Suc run]"
    using dn run_d by (intro upt_split) (simp_all add: Suc_le_eq)
  have early: "rx U duration_tail (f n) = []" if "n \<in> set [1..<length d]" for n
  proof -
    from that have n: "n < length d" by simp
    then have e: "drop n d \<noteq> []" "middle_dot \<notin> set (drop n d)" "10 \<notin> set (drop n d)"
      "\<not> is_space (last (drop n d))"
      using nodot nonl lastd by (auto dest: in_set_dropD)
    have "f n = (rev (take n a) @ b, drop n d @ rest, (1, take n a) # g)"
      using n by (simp add: f_def a_def)
    then show ?thesis
      using tail_fails [OF e] by simp
  qed
  have "f (length d) = (rev d @ b, rest, (1, d) # g)"
    by (simp add: f_def a_def)
  with tail obtain ts where hit: "rx U duration_tail (f (length d)) = t # ts"
    by (auto simp: rx_first_def split: list.splits)
  have "\<exists>m. concat (map (\<lambda>n. rx U duration_tail (f n))
               ([1..<length d] @ length d # [Suc (length d)..<Suc run])) = t # m"
    using early hit by (intro concat_first) simp_all
  then obtain m where "concat (map (\<lambda>n. rx U duration_tail (f n)) [1..<Suc run]) = t # m"
    unfolding split [symmetric] ..
  then have "rx U (Seq (Grp 1 (Rep Dot False 1 None)) duration_tail) (b, a, g) = t # m"
    by (simp only: rx.simps(3) grp map_map comp_def)
  then show ?thesis
    by (simp add: rx_first_def a_def)
qed

lemma duration_first:
  assumes ws: "list_all is_space ws" and d: "duration_text d" and ws': "list_all is_space ws'"
    and rest: "rest = ws' @ middle_dot # post \<or> rest = []"
  shows "\<exists>b' a'. rx_first U duration_pattern (b, middle_dot # ws @ d @ rest, []) =
           Some (b', a', [(1, d)])"
proof -
  from d have dn: "d \<noteq> []" "\<not> is_space (hd d)"
    by (simp_all add: duration_text_def)
  have 1: "rx_first U (Chr (Lit middle_dot)) (b, middle_dot # ws @ d @ rest, []) =
             Some (middle_dot # b, ws @ d @ rest, [])"
    by (intro rx_first_Chr) (simp add: Lit_def)
  have 2: "rx_first U (Rep Space True 0 None) (middle_dot # b, ws @ (d @ rest), []) =
             Some (rev ws @ middle_dot # b, d @ rest, [])"
    using ws dn by (intro rx_first_Rep_greedy) (simp_all add: spaces_space Space_def)
  obtain b' a' where tail: "rx_first U duration_tail (rev d @ rev ws @ middle_dot # b, rest, [(1, d)]) =
      Some (b', a', [(1, d)])"
    using rest tail_dot [OF ws'] tail_end by auto
  have 3: "rx_first U (Seq (Grp 1 (Rep Dot False 1 None)) duration_tail)
             (rev ws @ middle_dot # b, d @ rest, []) = Some (b', a', [(1, d)])"
    using d tail by (rule lazy_capture)
  have "rx_first U duration_pattern (b, middle_dot # ws @ d @ rest, []) = Some (b', a', [(1, d)])"
    unfolding duration_pattern_def seqs.simps duration_tail_def [symmetric]
    using 1 by (rule rx_first_Seq) (rule rx_first_Seq [OF 2 3])
  then show ?thesis by blast
qed

lemma duration_between_dots:
  assumes pre: "middle_dot \<notin> set pre"
    and ws: "list_all is_space ws" and d: "duration_text d" and ws': "list_all is_space ws'"
    and rest: "rest = ws' @ middle_dot # post \<or> rest = []"
  shows "snd (snd (extract_date_range U (pre @ middle_dot # ws @ d @ rest))) = Some d"
proof -
  let ?text = "pre @ middle_dot # ws @ d @ rest"
  from duration_first [OF ws d ws' rest] obtain b' a'
    where "rx_first U duration_pattern (rev pre @ [], middle_dot # ws @ d @ rest, []) =
             Some (b', a', [(1, d)])"
    by blast
  then have "search_from U duration_pattern (rev pre @ []) (middle_dot # ws @ d @ rest) =
               Some (b', a', [(1, d)])"
    by (rule search_from_first)
  moreover have "search_from U duration_pattern [] (pre @ middle_dot # ws @ d @ rest) =
      search_from U duration_pattern (rev pre @ []) (middle_dot # ws @ d @ rest)"
    unfolding duration_pattern_def seqs.simps using pre by (rule search_from_skip)
  ultimately have m: "re_search U duration_pattern ?text = Some (b', a', [(1, d)])"
    by (simp add: re_search_def)
  from d have "strip d = d"
    by (intro strip_id) (simp_all add: duration_text_def)
  then show ?thesis
    using m by (simp add: extract_date_range_def group_def split_def Let_def)
qed

text \<open>
  Claim C3.  For \<open>Jan 2019 - Present . 3 yrs 2 mos .\<close> (the dots are middle dots)
  \<open>extract_date_range\<close> returns the start \<open>Jan 2019\<close>, the end \<open>Present\<close> and the duration
  \<open>3 yrs 2 mos\<close>.  In general the date grammar accepts a start that is a word and a
  year or a year alone, then a hyphen or an en dash with any white space around it,
  then an end that is a word and a year, a year alone, or \<open>present\<close> in any mixture of
  cases: start and end are returned as they stand.  The month may be any word of
  letters in either case.  The duration is the text between the first middle dot and
  the next one (or the end of the text), without the white space around it.
\<close>

theorem date_range_grammar:
  "extract_date_range U
     (ascii ''Jan 2019 - Present '' @ [middle_dot] @ ascii '' 3 yrs 2 mos '' @ [middle_dot]) =
     (Some (ascii ''Jan 2019''), Some (ascii ''Present''), Some (ascii ''3 yrs 2 mos'')) \<and>
   (word_text w1 \<and> year_text y1 \<and> word_text w2 \<and> year_text y2 \<and> present_text p \<and>
    (dash = 45 \<or> dash = en_dash) \<and> list_all is_space ws1 \<and> list_all is_space ws2 \<and>
    (sd = w1 @ [32] @ y1 \<or> sd = y1) \<and> (ed = w2 @ [32] @ y2 \<or> ed = y2 \<or> ed = p) \<longrightarrow>
      extract_date_range U (sd @ ws1 @ [dash] @ ws2 @ ed) = (Some sd, Some ed, None)) \<and>
   (middle_dot \<notin> set pre \<and> list_all is_space ws \<and> duration_text d \<and> list_all is_space ws' \<and>
    (rest = ws' @ middle_dot # post \<or> rest = []) \<longrightarrow>
      snd (snd (extract_date_range U (pre @ middle_dot # ws @ d @ rest))) = Some d)"
proof (intro conjI impI)
  show "extract_date_range U
     (ascii ''Jan 2019 - Present '' @ [middle_dot] @ ascii '' 3 yrs 2 mos '' @ [middle_dot]) =
     (Some (ascii ''Jan 2019''), Some (ascii ''Present''), Some (ascii ''3 yrs 2 mos''))"
    by (simp add: extract_date_range_def pattern_defs regex_defs text_defs Let_def)
next
  assume "word_text w1 \<and> year_text y1 \<and> word_text w2 \<and> year_text y2 \<and> present_text p \<and>
    (dash = 45 \<or> dash = en_dash) \<and> list_all is_space ws1 \<and> list_all is_space ws2 \<and>
    (sd = w1 @ [32] @ y1 \<or> sd = y1) \<and> (ed = w2 @ [32] @ y2 \<or> ed = y2 \<or> ed = p)"
  then show "extract_date_range U (sd @ ws1 @ [dash] @ ws2 @ ed) = (Some sd, Some ed, None)"
    by (intro date_range_forms [where ?w1.0 = w1 and ?y1.0 = y1 and ?w2.0 = w2 and ?y2.0 = y2 and p = p])
      simp_all
next
  assume "middle_dot \<notin> set pre \<and> list_all is_space ws \<and> duration_text d \<and> list_all is_space ws' \<and>
    (rest = ws' @ middle_dot # post \<or> rest = [])"
  then show "snd (snd (extract_date_range U (pre @ middle_dot # ws @ d @ rest))) = Some d"
    by (intro duration_between_dots [where ws' = ws' and post = post]) simp_all
qed

theorem date_range_grammar_witness:
  "extract_date_range basic_db (ascii ''jun 2018'' @ ascii '' '' @ [en_dash] @ ascii '' '' @ ascii ''PRESENT'') =
     (Some (ascii ''jun 2018''), Some (ascii ''PRESENT''), None) \<and>
   extract_date_range basic_db (ascii ''2015'' @ [] @ [45] @ [] @ ascii ''Aug 2019'') =
     (Some (ascii ''2015''), Some (ascii ''Aug 2019''), None) \<and>
   snd (snd (extract_date_range basic_db
        (ascii ''Full-time '' @ middle_dot # ascii '' '' @ ascii ''2 yrs 3 mos'' @ ascii '' '' @
         middle_dot # ascii '' Remote''))) =
     Some (ascii ''2 yrs 3 mos'')"
proof -
  have forms: "word_text (ascii ''jun'')" "year_text (ascii ''2018'')" "word_text (ascii ''Aug'')"
    "year_text (ascii ''2019'')" "year_text (ascii ''2015'')" "present_text (ascii ''PRESENT'')"
    by (simp_all add: word_text_def year_text_def present_text_def ascii_letter_def
        ascii_digit_def lower_char_def ascii_def)
  have sp: "list_all is_space (ascii '' '')" "list_all is_space []"
    by (simp_all add: is_space_def ascii_def)
  have dur: "duration_text (ascii ''2 yrs 3 mos'')" "middle_dot \<notin> set (ascii ''Full-time '')"
    by (simp_all add: duration_text_def is_space_def middle_dot_def ascii_def)
  have a: "extract_date_range basic_db
             (ascii ''jun 2018'' @ ascii '' '' @ [en_dash] @ ascii '' '' @ ascii ''PRESENT'') =
           (Some (ascii ''jun 2018''), Some (ascii ''PRESENT''), None)"
    using date_range_grammar [where U = basic_db and ?w1.0 = "ascii ''jun''" and ?y1.0 = "ascii ''2018''"
        and ?w2.0 = "ascii ''Aug''" and ?y2.0 = "ascii ''2019''" and p = "ascii ''PRESENT''"
        and dash = en_dash and ?ws1.0 = "ascii '' ''" and ?ws2.0 = "ascii '' ''"
        and sd = "ascii ''jun 2018''" and ed = "ascii ''PRESENT''"] forms sp
    by (simp add: ascii_def)
  have b: "extract_date_range basic_db (ascii ''2015'' @ [] @ [45] @ [] @ ascii ''Aug 2019'') =
           (Some (ascii ''2015''), Some (ascii ''Aug 2019''), None)"
    using date_range_grammar [where U = basic_db and ?w1.0 = "ascii ''jun''" and ?y1.0 = "ascii ''2015''"
        and ?w2.0 = "ascii ''Aug''" and ?y2.0 = "ascii ''2019''" and p = "ascii ''PRESENT''"
        and dash = 45 and ?ws1.0 = "[]" and ?ws2.0 = "[]"
        and sd = "ascii ''2015''" and ed = "ascii ''Aug 2019''"] forms sp
    by (simp add: ascii_def)
  have c: "snd (snd (extract_date_range basic_db
        (ascii ''Full-time '' @ middle_dot # ascii '' '' @ ascii ''2 yrs 3 mos'' @ ascii '' '' @
         middle_dot # ascii '' Remote''))) = Some (ascii ''2 yrs 3 mos'')"
    using date_range_grammar [where U = basic_db and pre = "ascii ''Full-time ''" and ws = "ascii '' ''"
        and d = "ascii ''2 yrs 3 mos''" and ws' = "ascii '' ''" and post = "ascii '' Remote''"
        and rest = "ascii '' '' @ middle_dot # ascii '' Remote''"] dur sp
    by simp
  from a b c show ?thesis by (intro conjI)
qed

end
